theory Spec2Isabelle
  imports Complex_Main "HOL-Library.Log_Nat"
begin

section \<open>The journal store of app.py\<close>

text \<open>
  The program keeps six SQLite tables behind one connection and offers three classes of
  operations on them: \<^verbatim>\<open>FirahUser\<close>, \<^verbatim>\<open>ConsciousCircle\<close> and \<^verbatim>\<open>FirahPractice\<close>.
  The embedding follows the source:
  \<^item> a table is the list of its rows in insertion order, a row is a record with one field
    per column (the field names carry a one-letter table prefix where two tables share a
    column name);
  \<^item> every method takes the database and returns the database it leaves behind;
  \<^item> a raised exception and the \<^verbatim>\<open>None\<close> of a failed lookup are values of \<open>error\<close>;
  \<^item> an integer argument outside SQLite's signed 64-bit range makes the bind of a
    statement raise \<^verbatim>\<open>OverflowError\<close> before anything is written: \<^verbatim>\<open>log_practice\<close>,
    \<^verbatim>\<open>add_member\<close>, \<^verbatim>\<open>get_circle_info\<close> and \<^verbatim>\<open>get_journey_summary\<close> have this path;
    the other methods are modelled for the calls whose binds succeed, and the tables
    have no limit of capacity;
  \<^item> the clock readings (\<^verbatim>\<open>CURRENT_TIMESTAMP\<close>, \<^verbatim>\<open>datetime.now()\<close>) are arguments;
  \<^item> Python's \<^verbatim>\<open>float\<close> and SQLite's \<^verbatim>\<open>REAL\<close> are idealised as \<open>real\<close>: sums, products,
    quotients and means are the exact ones; only \<^verbatim>\<open>round\<close> looks at the binary double
    that a real stands for;
  \<^item> the status lines the methods print are not part of the model;
  \<^item> the non-ASCII string literals of the source are named constants holding a
    transliteration.
\<close>

subsection \<open>Values and rows\<close>

type_synonym timestamp = string

datatype error = NotFound | ZeroDivisionError | TypeError | OverflowError

text \<open>The values a \<^verbatim>\<open>dict\<close> built from a row (or returned as a report) can hold.\<close>

datatype py_value =
    PyNone
  | PyInt int
  | PyFloat real
  | PyStr string
  | PyJson "(string \<times> string) list"
    \<comment> \<open>the \<^verbatim>\<open>str\<close> that \<^verbatim>\<open>json.dumps\<close> makes of this dictionary\<close>

type_synonym py_dict = "string \<rightharpoonup> py_value"

record user_row =
  u_id :: int
  username :: string
  email :: string
  fitra_type :: string
  consciousness_level :: real
  u_created_at :: timestamp
  journey_data :: "(string \<times> string) list"

record circle_row =
  c_id :: int
  c_name :: string
  c_description :: string
  circle_type :: string
  collective_intention :: "string option"
  admin_user_id :: int
  c_created_at :: timestamp

record member_row =
  m_circle_id :: int
  m_user_id :: int
  joined_at :: timestamp
  role :: string

record practice_row =
  p_id :: int
  title :: string
  practice_type :: string
  content :: string
  duration_minutes :: int
  target_level :: real
  p_created_at :: timestamp

record practice_log_row =
  l_id :: int
  l_user_id :: int
  l_practice_id :: int
  duration_actual :: int
  l_notes :: string
  consciousness_before :: real
  consciousness_after :: real
  logged_at :: timestamp

record insight_row =
  i_id :: int
  i_user_id :: "int option"
  i_circle_id :: "int option"
  i_title :: string
  i_content :: string
  insight_type :: string
  is_shared :: int
  i_created_at :: timestamp

record db =
  users :: "user_row list"
  circles :: "circle_row list"
  circle_members :: "member_row list"
  practices :: "practice_row list"
  practice_logs :: "practice_log_row list"
  insights :: "insight_row list"

text \<open>\<^verbatim>\<open>FirahDatabase.create_tables\<close> on a fresh file: six empty tables.\<close>

definition create_tables :: db where
  "create_tables =
     \<lparr>users = [], circles = [], circle_members = [], practices = [],
      practice_logs = [], insights = []\<rparr>"

text \<open>
  \<^verbatim>\<open>INTEGER PRIMARY KEY AUTOINCREMENT\<close>: the new rowid is one more than the largest rowid
  the table has ever held. No statement of the program deletes a row of a table with such
  a key, so that is the largest rowid present (0 for an empty table).
\<close>

definition next_id :: "int list \<Rightarrow> int" where
  "next_id ids = fold max ids 0 + 1"

text \<open>The integers that a statement can bind: SQLite's \<^verbatim>\<open>INTEGER\<close> is signed 64-bit.\<close>

definition sqlite_int :: "int \<Rightarrow> bool" where
  "sqlite_int i \<longleftrightarrow> - (2 ^ 63) \<le> i \<and> i < 2 ^ 63"

subsection \<open>String literals of the source\<close>

definition journey_start_key :: string where
  \<comment> \<open>the key of the registration entry, Arabic for "start of the journey"\<close>
  "journey_start_key = ''bidayat_alrihla''"

definition role_creator :: string where
  \<comment> \<open>the role given by \<^verbatim>\<open>create_circle\<close>, Arabic for "creator"\<close>
  "role_creator = ''munshi''"

definition unknown_text :: string where
  \<comment> \<open>default of the report for a missing name or date, Arabic for "unknown"\<close>
  "unknown_text = ''ghayr maeruf''"

definition unspecified_text :: string where
  \<comment> \<open>default of the report for a missing category, Arabic for "unspecified"\<close>
  "unspecified_text = ''ghayr muhaddad''"

definition key_user :: string where "key_user = ''almustakhdim''"
definition key_fitra :: string where "key_fitra = ''naw_alfitra''"
definition key_level :: string where "key_level = ''mustawa_alwaey''"
definition key_insights :: string where "key_insights = ''eadad_albasayir''"
definition key_practices :: string where "key_practices = ''eadad_almumarasat''"
definition key_registered :: string where "key_registered = ''tarikh_altasjil''"
definition key_member_count :: string where "key_member_count = ''eadad_alaeda''"
definition key_avg :: string where "key_avg = ''mutawasit_alwaey_aljamaei''"

subsection \<open>FirahPractice\<close>

definition add_practice ::
  "string \<Rightarrow> string \<Rightarrow> string \<Rightarrow> int \<Rightarrow> real \<Rightarrow> timestamp \<Rightarrow> db \<Rightarrow> db" where
  "add_practice ttl ptype txt minutes level ts d =
     d\<lparr>practices := practices d @
        [\<lparr>p_id = next_id (map p_id (practices d)), title = ttl, practice_type = ptype,
          content = txt, duration_minutes = minutes, target_level = level,
          p_created_at = ts\<rparr>]\<rparr>"

text \<open>
  \<^verbatim>\<open>log_practice\<close>. The statements bind their integer arguments, and a bind raises
  \<^verbatim>\<open>OverflowError\<close> for an integer outside SQLite's range; nothing has been written then.
  \<^item> The \<^verbatim>\<open>SELECT\<close> binds \<^verbatim>\<open>practice_id\<close>. The ids the table holds are SQLite integers,
    so an id outside the range references no template: the model makes the range test
    where the lookup finds no row. In range, a missing template prints a message and
    returns \<^verbatim>\<open>None\<close> (\<open>NotFound\<close>).
  \<^item> The quotient \<^verbatim>\<open>duration_actual / target_duration\<close> is Python's true division of
    two integers, which raises \<^verbatim>\<open>ZeroDivisionError\<close> on a zero divisor.
  \<^item> The \<^verbatim>\<open>INSERT\<close> binds \<^verbatim>\<open>user_id\<close> and \<^verbatim>\<open>duration_actual\<close>. (The division itself
    raises \<^verbatim>\<open>OverflowError\<close> when the quotient is too large for a float; the stored
    target being a SQLite integer, \<^verbatim>\<open>duration_actual\<close> is then far outside the range, so
    the one test covers both.)
  \<^item> Otherwise one log row is appended and every user row with the given id gets the
    new level.
\<close>

definition find_practice :: "int \<Rightarrow> db \<Rightarrow> practice_row option" where
  "find_practice pid d = find (\<lambda>p. p_id p = pid) (practices d)"

definition set_level :: "int \<Rightarrow> real \<Rightarrow> user_row list \<Rightarrow> user_row list" where
  \<comment> \<open>\<^verbatim>\<open>UPDATE users SET consciousness_level = ? WHERE id = ?\<close>\<close>
  "set_level uid v rows =
     map (\<lambda>r. if u_id r = uid then r\<lparr>consciousness_level := v\<rparr> else r) rows"

definition log_practice ::
  "int \<Rightarrow> int \<Rightarrow> int \<Rightarrow> string \<Rightarrow> real \<Rightarrow> timestamp \<Rightarrow> db \<Rightarrow> (error + real) \<times> db" where
  "log_practice uid pid actual nts level_before ts d =
     (case find_practice pid d of
        None \<Rightarrow> if sqlite_int pid then (Inl NotFound, d) else (Inl OverflowError, d)
      | Some practice \<Rightarrow>
          let tlevel = target_level practice;
              target_duration = duration_minutes practice
          in if target_duration = 0 then (Inl ZeroDivisionError, d)
             else if \<not> (sqlite_int uid \<and> sqlite_int actual) then (Inl OverflowError, d)
             else
               let effectiveness = min (real_of_int actual / real_of_int target_duration) 1.5;
                   level_after = level_before + (tlevel * effectiveness * 0.1);
                   d1 = d\<lparr>practice_logs := practice_logs d @
                          [\<lparr>l_id = next_id (map l_id (practice_logs d)), l_user_id = uid,
                            l_practice_id = pid, duration_actual = actual, l_notes = nts,
                            consciousness_before = level_before, consciousness_after = level_after,
                            logged_at = ts\<rparr>]\<rparr>;
                   d2 = d1\<lparr>users := set_level uid level_after (users d1)\<rparr>
               in (Inr level_after, d2))"

subsection \<open>FirahUser\<close>

text \<open>
  A \<^verbatim>\<open>FirahUser\<close> object holds the id of the user it stands for (\<^verbatim>\<open>None\<close> until one is
  known) and \<^verbatim>\<open>user_data\<close>, the dictionary made of that user's row when it was last read.
\<close>

record firah_user =
  user_id :: "int option"
  user_data :: py_dict

definition find_user :: "int \<Rightarrow> db \<Rightarrow> user_row option" where
  \<comment> \<open>\<^verbatim>\<open>SELECT ... FROM users WHERE id = ?\<close> followed by \<^verbatim>\<open>fetchone()\<close>\<close>
  "find_user uid d = find (\<lambda>r. u_id r = uid) (users d)"

definition user_dict :: "user_row \<Rightarrow> py_dict" where
  \<comment> \<open>\<^verbatim>\<open>dict(zip(columns, user))\<close>\<close>
  "user_dict r =
     [''id'' \<mapsto> PyInt (u_id r),
      ''username'' \<mapsto> PyStr (username r),
      ''email'' \<mapsto> PyStr (email r),
      ''fitra_type'' \<mapsto> PyStr (fitra_type r),
      ''consciousness_level'' \<mapsto> PyFloat (consciousness_level r),
      ''created_at'' \<mapsto> PyStr (u_created_at r),
      ''journey_data'' \<mapsto> PyJson (journey_data r)]"

definition load_user_data :: "firah_user \<Rightarrow> db \<Rightarrow> firah_user" where
  "load_user_data u d =
     (case user_id u of
        None \<Rightarrow> u
      | Some uid \<Rightarrow>
          (case find_user uid d of
             None \<Rightarrow> u
           | Some r \<Rightarrow> u\<lparr>user_data := user_dict r\<rparr>))"

text \<open>The constructor; \<^verbatim>\<open>if user_id:\<close> is false for \<^verbatim>\<open>None\<close> and for 0.\<close>

definition FirahUser :: "db \<Rightarrow> int option \<Rightarrow> firah_user" where
  "FirahUser d uid =
     (let u = \<lparr>user_id = uid, user_data = Map.empty\<rparr>
      in if uid \<noteq> None \<and> uid \<noteq> Some 0 then load_user_data u d else u)"

text \<open>
  \<^verbatim>\<open>register\<close>: the columns \<^verbatim>\<open>username\<close> and \<^verbatim>\<open>email\<close> are \<^verbatim>\<open>UNIQUE\<close>, so the insert
  raises \<^verbatim>\<open>IntegrityError\<close> when a row already has the name or the address; the handler
  returns \<^verbatim>\<open>False\<close> and nothing has been written. \<open>now\<close> is \<^verbatim>\<open>str(datetime.now())\<close>,
  \<open>ts\<close> the \<^verbatim>\<open>CURRENT_TIMESTAMP\<close> of the insert.
\<close>

definition duplicate_key :: "string \<Rightarrow> string \<Rightarrow> db \<Rightarrow> bool" where
  "duplicate_key name mail d =
     list_ex (\<lambda>r. username r = name \<or> email r = mail) (users d)"

definition register ::
  "firah_user \<Rightarrow> string \<Rightarrow> string \<Rightarrow> string \<Rightarrow> string \<Rightarrow> timestamp \<Rightarrow> db
     \<Rightarrow> bool \<times> firah_user \<times> db" where
  "register u name mail fitra now ts d =
     (if duplicate_key name mail d then (False, u, d)
      else
        let lastrowid = next_id (map u_id (users d));
            d1 = d\<lparr>users := users d @
                   [\<lparr>u_id = lastrowid, username = name, email = mail, fitra_type = fitra,
                     consciousness_level = 1.0, u_created_at = ts,
                     journey_data = [(journey_start_key, now)]\<rparr>]\<rparr>;
            u1 = load_user_data (u\<lparr>user_id := Some lastrowid\<rparr>) d1
        in (True, u1, d1))"

definition authenticate :: "firah_user \<Rightarrow> string \<Rightarrow> db \<Rightarrow> bool \<times> firah_user" where
  "authenticate u name d =
     (case find (\<lambda>r. username r = name) (users d) of
        Some r \<Rightarrow> (True, load_user_data (u\<lparr>user_id := Some (u_id r)\<rparr>) d)
      | None \<Rightarrow> (False, u))"

text \<open>\<^verbatim>\<open>update_consciousness\<close>; \<^verbatim>\<open>if not self.user_id\<close> holds for \<^verbatim>\<open>None\<close> and for 0.\<close>

definition update_consciousness :: "firah_user \<Rightarrow> real \<Rightarrow> db \<Rightarrow> firah_user \<times> db" where
  "update_consciousness u new_level d =
     (case user_id u of
        None \<Rightarrow> (u, d)
      | Some uid \<Rightarrow>
          if uid = 0 then (u, d)
          else (u\<lparr>user_data := (user_data u)(''consciousness_level'' \<mapsto> PyFloat new_level)\<rparr>,
                d\<lparr>users := set_level uid new_level (users d)\<rparr>))"

text \<open>
  \<^verbatim>\<open>add_insight\<close> names four columns in its insert; \<^verbatim>\<open>circle_id\<close> gets no value (NULL)
  and \<^verbatim>\<open>is_shared\<close> its declared default 0.
\<close>

definition add_insight ::
  "firah_user \<Rightarrow> string \<Rightarrow> string \<Rightarrow> string \<Rightarrow> timestamp \<Rightarrow> db \<Rightarrow> db" where
  "add_insight u ttl txt itype ts d =
     d\<lparr>insights := insights d @
        [\<lparr>i_id = next_id (map i_id (insights d)), i_user_id = user_id u,
          i_circle_id = None, i_title = ttl, i_content = txt, insight_type = itype,
          is_shared = 0, i_created_at = ts\<rparr>]\<rparr>"

text \<open>
  \<^verbatim>\<open>get_journey_summary\<close>: two counts, then the stored level; \<^verbatim>\<open>fetchone()[0]\<close> raises
  \<^verbatim>\<open>TypeError\<close> when no user row has the object's id. The three statements bind that id:
  outside SQLite's range (where no row has it) the first of them raises \<^verbatim>\<open>OverflowError\<close>.
  Name, category and date come from the object's \<^verbatim>\<open>user_data\<close>, with a default for a
  missing key. The database is returned as it was received.
\<close>

definition count_insights :: "int option \<Rightarrow> db \<Rightarrow> nat" where
  \<comment> \<open>\<^verbatim>\<open>SELECT COUNT(*) FROM insights WHERE user_id = ?\<close>; NULL equals nothing\<close>
  "count_insights uid d =
     (case uid of None \<Rightarrow> 0
      | Some i \<Rightarrow> length (filter (\<lambda>r. i_user_id r = Some i) (insights d)))"

definition count_practice_logs :: "int option \<Rightarrow> db \<Rightarrow> nat" where
  "count_practice_logs uid d =
     (case uid of None \<Rightarrow> 0
      | Some i \<Rightarrow> length (filter (\<lambda>r. l_user_id r = i) (practice_logs d)))"

definition dict_get :: "py_dict \<Rightarrow> string \<Rightarrow> py_value \<Rightarrow> py_value" where
  "dict_get m k dflt = (case m k of None \<Rightarrow> dflt | Some v \<Rightarrow> v)"

definition get_journey_summary :: "firah_user \<Rightarrow> db \<Rightarrow> (error + py_dict) \<times> db" where
  "get_journey_summary u d =
     (let insights_count = count_insights (user_id u) d;
          practices_count = count_practice_logs (user_id u) d
      in case (case user_id u of None \<Rightarrow> None | Some uid \<Rightarrow> find_user uid d) of
           None \<Rightarrow>
             (case user_id u of
                None \<Rightarrow> (Inl TypeError, d)
              | Some uid \<Rightarrow>
                  if sqlite_int uid then (Inl TypeError, d) else (Inl OverflowError, d))
         | Some r \<Rightarrow>
             (Inr [key_user \<mapsto> dict_get (user_data u) ''username'' (PyStr unknown_text),
                   key_fitra \<mapsto> dict_get (user_data u) ''fitra_type'' (PyStr unspecified_text),
                   key_level \<mapsto> PyFloat (consciousness_level r),
                   key_insights \<mapsto> PyInt (int insights_count),
                   key_practices \<mapsto> PyInt (int practices_count),
                   key_registered \<mapsto> dict_get (user_data u) ''created_at'' (PyStr unknown_text)],
              d))"

subsection \<open>ConsciousCircle\<close>

text \<open>
  The statement of \<^verbatim>\<open>add_member\<close> is \<^verbatim>\<open>INSERT OR REPLACE\<close> on a table whose primary key
  is the pair (circle, user): the rows with that pair are deleted, then the new row is
  inserted. SQLite does not enforce the foreign keys the schema declares (the program
  never turns them on), so the pair need not reference a circle or a user.
\<close>

definition insert_or_replace_member :: "int \<Rightarrow> int \<Rightarrow> string \<Rightarrow> timestamp \<Rightarrow> db \<Rightarrow> db" where
  "insert_or_replace_member cid uid rl ts d =
     d\<lparr>circle_members :=
          filter (\<lambda>m. \<not> (m_circle_id m = cid \<and> m_user_id m = uid)) (circle_members d) @
          [\<lparr>m_circle_id = cid, m_user_id = uid, joined_at = ts, role = rl\<rparr>]\<rparr>"

text \<open>
  \<^verbatim>\<open>add_member\<close> binds the two ids of its signature; an id outside SQLite's range raises
  \<^verbatim>\<open>OverflowError\<close> and nothing is written.
\<close>

definition add_member ::
  "int \<Rightarrow> int \<Rightarrow> string \<Rightarrow> timestamp \<Rightarrow> db \<Rightarrow> (error + unit) \<times> db" where
  "add_member cid uid rl ts d =
     (if sqlite_int cid \<and> sqlite_int uid
      then (Inr (), insert_or_replace_member cid uid rl ts d)
      else (Inl OverflowError, d))"

text \<open>
  \<^verbatim>\<open>create_circle\<close>, for the calls that return: the circle is inserted with a fresh id,
  then \<^verbatim>\<open>add_member\<close> runs its statement for that id and the admin id, which the first
  insert has bound already.
\<close>

definition create_circle ::
  "string \<Rightarrow> string \<Rightarrow> int \<Rightarrow> string \<Rightarrow> timestamp \<Rightarrow> timestamp \<Rightarrow> db \<Rightarrow> int \<times> db" where
  "create_circle name descr admin ctype ts ts_member d =
     (let circle_id = next_id (map c_id (circles d));
          d1 = d\<lparr>circles := circles d @
                 [\<lparr>c_id = circle_id, c_name = name, c_description = descr,
                   circle_type = ctype, collective_intention = None,
                   admin_user_id = admin, c_created_at = ts\<rparr>]\<rparr>
      in (circle_id, insert_or_replace_member circle_id admin role_creator ts_member d1))"

definition set_collective_intention :: "int \<Rightarrow> string \<Rightarrow> db \<Rightarrow> db" where
  "set_collective_intention cid intention d =
     d\<lparr>circles :=
          map (\<lambda>c. if c_id c = cid then c\<lparr>collective_intention := Some intention\<rparr> else c)
            (circles d)\<rparr>"

definition find_circle :: "int \<Rightarrow> db \<Rightarrow> circle_row option" where
  "find_circle cid d = find (\<lambda>c. c_id c = cid) (circles d)"

definition circle_dict :: "circle_row \<Rightarrow> py_dict" where
  \<comment> \<open>\<^verbatim>\<open>dict(zip(columns, circle))\<close>\<close>
  "circle_dict c =
     [''id'' \<mapsto> PyInt (c_id c),
      ''name'' \<mapsto> PyStr (c_name c),
      ''description'' \<mapsto> PyStr (c_description c),
      ''circle_type'' \<mapsto> PyStr (circle_type c),
      ''collective_intention'' \<mapsto>
         (case collective_intention c of None \<Rightarrow> PyNone | Some t \<Rightarrow> PyStr t),
      ''admin_user_id'' \<mapsto> PyInt (admin_user_id c),
      ''created_at'' \<mapsto> PyStr (c_created_at c)]"

definition count_members :: "int \<Rightarrow> db \<Rightarrow> nat" where
  \<comment> \<open>\<^verbatim>\<open>SELECT COUNT(*) FROM circle_members WHERE circle_id = ?\<close>\<close>
  "count_members cid d = length (filter (\<lambda>m. m_circle_id m = cid) (circle_members d))"

definition member_levels :: "int \<Rightarrow> db \<Rightarrow> real list" where
  \<comment> \<open>the join of the circle's membership rows with the user rows of the same id\<close>
  "member_levels cid d =
     concat (map (\<lambda>m. map consciousness_level (filter (\<lambda>r. u_id r = m_user_id m) (users d)))
               (filter (\<lambda>m. m_circle_id m = cid) (circle_members d)))"

definition sql_avg :: "real list \<Rightarrow> real option" where
  \<comment> \<open>\<^verbatim>\<open>AVG\<close> is NULL over no rows\<close>
  "sql_avg xs = (if xs = [] then None else Some (sum_list xs / real (length xs)))"

text \<open>
  \<^verbatim>\<open>round(x, 2)\<close> acts on a binary double. A level of the model is an exact real that
  stands for the double nearest to it: \<open>to_double\<close> rounds a real to 53 significant bits,
  ties to the even significand (the exponent range of a double, and with it overflow and
  subnormal numbers, is not modelled). Python rounds the exact value of that double to
  the nearest multiple of 1/100, ties to the even multiple, so a decimal tie of the real,
  such as 1.225, is decided by the side on which its double lies.
\<close>

definition round_half_even :: "real \<Rightarrow> int" where
  "round_half_even y =
     (let f = \<lfloor>y\<rfloor>; frac = y - real_of_int f
      in if frac < 1/2 then f else if 1/2 < frac then f + 1
         else if even f then f else f + 1)"

definition float_exponent :: "real \<Rightarrow> int" where
  \<comment> \<open>for \<open>0 < a\<close>, the \<open>e\<close> with \<open>2 powi e \<le> a < 2 powi (e + 1)\<close>\<close>
  "float_exponent a = (if 1 \<le> a then bitlen \<lfloor>a\<rfloor> - 1 else - bitlen (\<lceil>1 / a\<rceil> - 1))"

definition to_double :: "real \<Rightarrow> real" where
  "to_double x =
     (if x = 0 then 0
      else let e = float_exponent \<bar>x\<bar>
           in real_of_int (round_half_even (x * 2 powi (52 - e))) * 2 powi (e - 52))"

definition py_round2 :: "real \<Rightarrow> real" where
  "py_round2 x = real_of_int (round_half_even (to_double x * 100)) / 100"

definition round2_value :: "py_value \<Rightarrow> py_value" where
  \<comment> \<open>\<^verbatim>\<open>round(v, 2)\<close> keeps an \<^verbatim>\<open>int\<close> as it is\<close>
  "round2_value v = (case v of PyFloat x \<Rightarrow> PyFloat (py_round2 x) | _ \<Rightarrow> v)"

text \<open>
  \<^verbatim>\<open>get_circle_info\<close>: the first \<^verbatim>\<open>SELECT\<close> binds \<^verbatim>\<open>circle_id\<close> and raises \<^verbatim>\<open>OverflowError\<close>
  for an id outside SQLite's range. A missing circle gives the empty dictionary.
\<close>

definition get_circle_info :: "int \<Rightarrow> db \<Rightarrow> (error + py_dict) \<times> db" where
  "get_circle_info cid d =
     (if \<not> sqlite_int cid then (Inl OverflowError, d)
      else
        case find_circle cid d of
          None \<Rightarrow> (Inr Map.empty, d)
        | Some circle \<Rightarrow>
            let member_count = count_members cid d;
                avg_consciousness =
                  (case sql_avg (member_levels cid d) of
                     None \<Rightarrow> PyInt 0
                   | Some a \<Rightarrow> if a = 0 then PyInt 0 else PyFloat a)
                  \<comment> \<open>\<^verbatim>\<open>fetchone()[0] or 0\<close>: \<^verbatim>\<open>None\<close> and 0.0 are both falsy\<close>
            in (Inr ((circle_dict circle)
                  (key_member_count \<mapsto> PyInt (int member_count),
                   key_avg \<mapsto> round2_value avg_consciousness)),
                d))"

subsection \<open>Sequences of calls\<close>

text \<open>
  One constructor per public method, with the arguments of the call (for a method of
  \<^verbatim>\<open>FirahUser\<close>, the object it is called on). \<open>apply_op\<close> is the database after the call;
  the calls that only read leave it as it is.
\<close>

datatype op =
    Register firah_user string string string string timestamp
  | Authenticate firah_user string
  | UpdateConsciousness firah_user real
  | AddInsight firah_user string string string timestamp
  | GetJourneySummary firah_user
  | CreateCircle string string int string timestamp timestamp
  | AddMember int int string timestamp
  | SetCollectiveIntention int string
  | GetCircleInfo int
  | AddPractice string string string int real timestamp
  | LogPractice int int int string real timestamp

fun apply_op :: "op \<Rightarrow> db \<Rightarrow> db" where
  "apply_op (Register u name mail fitra now ts) d = snd (snd (register u name mail fitra now ts d))"
| "apply_op (Authenticate u name) d = d"
| "apply_op (UpdateConsciousness u v) d = snd (update_consciousness u v d)"
| "apply_op (AddInsight u ttl txt itype ts) d = add_insight u ttl txt itype ts d"
| "apply_op (GetJourneySummary u) d = snd (get_journey_summary u d)"
| "apply_op (CreateCircle name descr admin ctype ts ts2) d =
     snd (create_circle name descr admin ctype ts ts2 d)"
| "apply_op (AddMember cid uid rl ts) d = snd (add_member cid uid rl ts d)"
| "apply_op (SetCollectiveIntention cid txt) d = set_collective_intention cid txt d"
| "apply_op (GetCircleInfo cid) d = snd (get_circle_info cid d)"
| "apply_op (AddPractice ttl ptype txt minutes level ts) d =
     add_practice ttl ptype txt minutes level ts d"
| "apply_op (LogPractice uid pid actual nts level_before ts) d =
     snd (log_practice uid pid actual nts level_before ts d)"

definition run :: "op list \<Rightarrow> db \<Rightarrow> db" where
  "run ops d = foldl (\<lambda>s c. apply_op c s) d ops"

text \<open>
  The number of \<^verbatim>\<open>add_insight\<close> calls of a sequence made on an object of user \<open>uid\<close>
  (for the id of a stored user the method returns), and the number of its
  \<^verbatim>\<open>log_practice\<close> calls for \<open>uid\<close> that returned a level, each call judged in the
  database it ran in.
\<close>

fun insight_calls :: "int \<Rightarrow> op list \<Rightarrow> nat" where
  "insight_calls uid [] = 0"
| "insight_calls uid (AddInsight u ttl txt itype ts # cs) =
     (if user_id u = Some uid then 1 else 0) + insight_calls uid cs"
| "insight_calls uid (c # cs) = insight_calls uid cs"

definition log_succeeds :: "int \<Rightarrow> op \<Rightarrow> db \<Rightarrow> bool" where
  "log_succeeds uid c d =
     (case c of
        LogPractice uid' pid actual nts level_before ts \<Rightarrow>
          uid' = uid \<and> \<not> isl (fst (log_practice uid' pid actual nts level_before ts d))
      | _ \<Rightarrow> False)"

fun log_calls :: "int \<Rightarrow> op list \<Rightarrow> db \<Rightarrow> nat" where
  "log_calls uid [] d = 0"
| "log_calls uid (c # cs) d =
     (if log_succeeds uid c d then 1 else 0) + log_calls uid cs (apply_op c d)"

subsection \<open>The demonstration run\<close>

text \<open>
  The calls of \<^verbatim>\<open>main_demo\<close> up to the first practice log: three templates, one user,
  one circle and its intention. The texts are shortened; the numbers are the source's.
\<close>

definition new_user :: firah_user where
  "new_user = FirahUser create_tables None"

definition demo_calls :: "op list" where
  "demo_calls =
     [AddPractice ''fitri'' ''taammul'' ''sit'' 10 1.5 ''t1'',
      AddPractice ''jamaei'' ''mujtamae'' ''gather'' 20 2.0 ''t2'',
      AddPractice ''yawmi'' ''tafakkur'' ''write'' 5 1.2 ''t3'',
      Register new_user ''ahmad'' ''ahmed@firah.demo'' ''mustakshif'' ''n4'' ''t4'',
      CreateCircle ''hikma'' ''explore'' 1 ''taammul'' ''t5'' ''t6'',
      SetCollectiveIntention 1 ''peace'']"

definition demo_db :: db where
  "demo_db = run demo_calls create_tables"

text \<open>
  The object \<^verbatim>\<open>user_manager\<close> of \<^verbatim>\<open>main_demo\<close> after its \<^verbatim>\<open>register\<close> call, and the two
  writing calls that follow the set-up: one practice log and one insight.
\<close>

definition demo_user :: firah_user where
  "demo_user =
     fst (snd (register new_user ''ahmad'' ''ahmed@firah.demo'' ''mustakshif'' ''n4'' ''t4''
                 (run (take 3 demo_calls) create_tables)))"

definition demo_session :: "op list" where
  "demo_session =
     [LogPractice 1 1 15 ''deep'' 1.0 ''t7'',
      AddInsight demo_user ''iktishaf alfitra'' ''compass'' ''iktishaf'' ''t8'']"


subsection \<open>Objects that stand for a user\<close>

text \<open>
  An object is loaded for the user of its id when a row with that id exists and
  \<^verbatim>\<open>user_data\<close> holds the name, category and registration date of that row. This is the
  state of an object after a successful \<^verbatim>\<open>register\<close> or \<^verbatim>\<open>authenticate\<close>, or after
  construction with the id of an existing user.
\<close>

definition loaded :: "firah_user \<Rightarrow> db \<Rightarrow> bool" where
  "loaded u d =
     (case user_id u of
        None \<Rightarrow> False
      | Some uid \<Rightarrow>
          (case find_user uid d of
             None \<Rightarrow> False
           | Some r \<Rightarrow>
               user_data u ''username'' = Some (PyStr (username r)) \<and>
               user_data u ''fitra_type'' = Some (PyStr (fitra_type r)) \<and>
               user_data u ''created_at'' = Some (PyStr (u_created_at r))))"

section \<open>Properties\<close>

subsection \<open>Fresh row ids and lookups\<close>

lemma fold_max_ge: "a \<le> fold max ids (a::int)"
  by (induction ids arbitrary: a) (auto intro: order_trans[OF max.cobounded2])

lemma fold_max_mem: "i \<in> set ids \<Longrightarrow> i \<le> fold max ids (a::int)"
proof (induction ids arbitrary: a)
  case Nil
  then show ?case by simp
next
  case (Cons x xs)
  show ?case
  proof (cases "i = x")
    case True
    have "x \<le> max x a" by simp
    also have "\<dots> \<le> fold max xs (max x a)" by (rule fold_max_ge)
    finally show ?thesis using True by simp
  next
    case False
    with Cons show ?thesis by simp
  qed
qed

lemma next_id_fresh: "i \<in> set ids \<Longrightarrow> i < next_id ids"
  using fold_max_mem[of i ids 0] by (simp add: next_id_def)

lemma next_id_not_mem: "next_id ids \<notin> set ids"
  using next_id_fresh[of "next_id ids" ids] by auto

lemma find_snoc:
  "find P (xs @ [x]) =
     (case find P xs of Some y \<Rightarrow> Some y | None \<Rightarrow> if P x then Some x else None)"
  by (induction xs) auto

lemma find_practice_add:
  "find_practice (next_id (map p_id (practices d)))
      (add_practice ttl ptype txt minutes level ts d) =
     Some \<lparr>p_id = next_id (map p_id (practices d)), title = ttl, practice_type = ptype,
          content = txt, duration_minutes = minutes, target_level = level,
          p_created_at = ts\<rparr>"
proof -
  have "find (\<lambda>p. p_id p = next_id (map p_id (practices d))) (practices d) = None"
    using next_id_not_mem[of "map p_id (practices d)"] by (force simp: find_None_iff)
  then show ?thesis
    by (simp add: find_practice_def add_practice_def find_snoc)
qed

lemma demo_db_eq:
  "demo_db =
     \<lparr>users =
        [\<lparr>u_id = 1, username = ''ahmad'', email = ''ahmed@firah.demo'',
          fitra_type = ''mustakshif'', consciousness_level = 1, u_created_at = ''t4'',
          journey_data = [(journey_start_key, ''n4'')]\<rparr>],
      circles =
        [\<lparr>c_id = 1, c_name = ''hikma'', c_description = ''explore'',
          circle_type = ''taammul'', collective_intention = Some ''peace'',
          admin_user_id = 1, c_created_at = ''t5''\<rparr>],
      circle_members =
        [\<lparr>m_circle_id = 1, m_user_id = 1, joined_at = ''t6'', role = role_creator\<rparr>],
      practices =
        [\<lparr>p_id = 1, title = ''fitri'', practice_type = ''taammul'', content = ''sit'',
          duration_minutes = 10, target_level = 1.5, p_created_at = ''t1''\<rparr>,
         \<lparr>p_id = 2, title = ''jamaei'', practice_type = ''mujtamae'', content = ''gather'',
          duration_minutes = 20, target_level = 2.0, p_created_at = ''t2''\<rparr>,
         \<lparr>p_id = 3, title = ''yawmi'', practice_type = ''tafakkur'', content = ''write'',
          duration_minutes = 5, target_level = 1.2, p_created_at = ''t3''\<rparr>],
      practice_logs = [], insights = []\<rparr>"
  by (simp add: demo_db_def demo_calls_def run_def create_tables_def add_practice_def
      register_def duplicate_key_def create_circle_def add_member_def insert_or_replace_member_def
      set_collective_intention_def next_id_def Let_def)

subsection \<open>Logging against a missing template\<close>

text \<open>
  C2, as the code has it. When no practice template has the given id, \<^verbatim>\<open>log_practice\<close>
  leaves the database it received: no log row is appended and no user's level is
  changed. For an id within SQLite's integer range it reports \<open>NotFound\<close>. For an id
  outside the range the bind of the lookup raises \<open>OverflowError\<close> instead
  (\<open>log_practice_not_found_counterexample\<close>).
\<close>

theorem log_practice_not_found:
  assumes "\<forall>p \<in> set (practices d). p_id p \<noteq> pid"
  shows "(sqlite_int pid \<longrightarrow>
            log_practice uid pid actual nts level_before ts d = (Inl NotFound, d))
       \<and> (\<not> sqlite_int pid \<longrightarrow>
            log_practice uid pid actual nts level_before ts d = (Inl OverflowError, d))
       \<and> snd (log_practice uid pid actual nts level_before ts d) = d
       \<and> practice_logs (snd (log_practice uid pid actual nts level_before ts d)) = practice_logs d
       \<and> users (snd (log_practice uid pid actual nts level_before ts d)) = users d"
proof -
  from assms have "find_practice pid d = None"
    by (auto simp: find_practice_def find_None_iff)
  then show ?thesis by (simp add: log_practice_def)
qed

theorem log_practice_not_found_witness:
  "7 \<notin> p_id ` set (practices demo_db)
   \<and> sqlite_int 7
   \<and> log_practice 1 7 15 ''deep'' 1 ''t7'' demo_db = (Inl NotFound, demo_db)
   \<and> snd (log_practice 1 9223372036854775808 15 ''deep'' 1 ''t7'' demo_db) = demo_db"
proof -
  have h: "\<forall>p \<in> set (practices demo_db). p_id p \<noteq> 7"
    by (simp add: demo_db_eq)
  have h': "\<forall>p \<in> set (practices demo_db). p_id p \<noteq> 9223372036854775808"
    by (simp add: demo_db_eq)
  have s: "sqlite_int 7"
    by (simp add: sqlite_int_def)
  from log_practice_not_found[OF h, of 1 15 "''deep''" 1 "''t7''"]
    log_practice_not_found[OF h', of 1 15 "''deep''" 1 "''t7''"] h s
  show ?thesis by auto
qed

theorem log_practice_not_found_counterexample:
  "9223372036854775808 \<notin> p_id ` set (practices demo_db)
   \<and> log_practice 1 9223372036854775808 15 ''deep'' 1 ''t7'' demo_db =
       (Inl OverflowError, demo_db)
   \<and> OverflowError \<noteq> NotFound"
  by (simp add: demo_db_eq log_practice_def find_practice_def sqlite_int_def)

subsection \<open>A template of duration zero\<close>

text \<open>
  C8. A template may be created with target duration 0 (\<^verbatim>\<open>add_practice\<close> checks nothing),
  and \<^verbatim>\<open>log_practice\<close> against it reaches the division with a zero divisor: in every
  database, adding such a template and logging against the id it received ends in
  \<open>ZeroDivisionError\<close>, with nothing written. So \<^verbatim>\<open>log_practice\<close> returns no level for
  some template that exists.
\<close>

theorem log_practice_zero_duration:
  "log_practice uid (next_id (map p_id (practices d))) actual nts level_before ts2
      (add_practice ttl ptype txt 0 level ts d) =
   (Inl ZeroDivisionError, add_practice ttl ptype txt 0 level ts d)"
  by (simp add: log_practice_def find_practice_add)

subsection \<open>The level a practice log computes\<close>

lemma set_level_levels:
  assumes "r \<in> set (set_level uid v rows)" and "u_id r = uid"
  shows "consciousness_level r = v"
proof -
  from assms(1) obtain x where x: "x \<in> set rows"
      and r: "r = (if u_id x = uid then x\<lparr>consciousness_level := v\<rparr> else x)"
    unfolding set_level_def by auto
  show ?thesis
  proof (cases "u_id x = uid")
    case True
    with r show ?thesis by simp
  next
    case False
    with r assms(2) show ?thesis by simp
  qed
qed

lemma set_level_idem: "set_level uid v (set_level uid w rows) = set_level uid v rows"
  by (simp add: set_level_def)

lemma find_user_set_level:
  "find (\<lambda>r. u_id r = i) (set_level uid v rows) =
     map_option (\<lambda>r. if u_id r = uid then r\<lparr>consciousness_level := v\<rparr> else r)
       (find (\<lambda>r. u_id r = i) rows)"
  by (induction rows) (auto simp: set_level_def)

lemma find_practice_demo_1:
  "find_practice 1 demo_db =
     Some \<lparr>p_id = 1, title = ''fitri'', practice_type = ''taammul'', content = ''sit'',
          duration_minutes = 10, target_level = 1.5, p_created_at = ''t1''\<rparr>"
  by (simp add: demo_db_eq find_practice_def)

lemma log_practice_found:
  assumes "find_practice pid d = Some p" and "duration_minutes p \<noteq> 0"
    and "sqlite_int uid" and "sqlite_int actual"
  shows "log_practice uid pid actual nts level_before ts d =
     (Inr (level_before + target_level p *
             min (real_of_int actual / real_of_int (duration_minutes p)) 1.5 * 0.1),
      d\<lparr>practice_logs := practice_logs d @
          [\<lparr>l_id = next_id (map l_id (practice_logs d)), l_user_id = uid,
            l_practice_id = pid, duration_actual = actual, l_notes = nts,
            consciousness_before = level_before,
            consciousness_after =
              level_before + target_level p *
                min (real_of_int actual / real_of_int (duration_minutes p)) 1.5 * 0.1,
            logged_at = ts\<rparr>],
        users :=
          set_level uid
            (level_before + target_level p *
               min (real_of_int actual / real_of_int (duration_minutes p)) 1.5 * 0.1)
            (users d)\<rparr>)"
  using assms by (simp add: log_practice_def Let_def)

lemma log_practice_overflow:
  assumes "find_practice pid d = Some p" and "duration_minutes p \<noteq> 0"
    and "\<not> (sqlite_int uid \<and> sqlite_int actual)"
  shows "log_practice uid pid actual nts level_before ts d = (Inl OverflowError, d)"
  using assms by (simp add: log_practice_def Let_def)

text \<open>
  C1, as the code has it. The claim speaks of every call on an existing template, but
  \<^item> a template of duration 0 makes the call raise \<open>ZeroDivisionError\<close>,
  \<^item> a user id or an actual duration outside SQLite's integer range makes it raise
    \<open>OverflowError\<close>,
  and no level is returned or stored; and for a negative target duration the quotient is
  not capped once the actual duration exceeds 1.5 times the target
  (\<open>log_practice_level_counterexample\<close>). For a template \<open>p\<close> whose target duration \<open>T\<close>
  is not 0, with target level \<open>L\<close>, and ids and an actual duration in range (the id of a
  stored template is in range):
  \<^item> the call returns \<open>level_before + L * min (actual / T) 1.5 * 0.1\<close>;
  \<^item> it appends one log row holding \<open>level_before\<close> and that level;
  \<^item> every user row with the given id holds that level afterwards;
  \<^item> when \<open>0 < T\<close> and \<open>1.5 * T \<le> actual\<close> the level is \<open>level_before + L * 1.5 * 0.1\<close>,
    whatever \<open>actual\<close> is;
  \<^item> with \<open>actual = 15\<close>, \<open>T = 10\<close>, \<open>L = 1.5\<close> and \<open>level_before = 1\<close> it is 1.225.
\<close>

theorem log_practice_level:
  assumes "find_practice pid d = Some p" and "duration_minutes p \<noteq> 0"
    and "sqlite_int uid" and "sqlite_int actual" and "sqlite_int pid"
  shows "fst (log_practice uid pid actual nts level_before ts d) =
           Inr (level_before + target_level p *
                  min (real_of_int actual / real_of_int (duration_minutes p)) 1.5 * 0.1)
       \<and> practice_logs (snd (log_practice uid pid actual nts level_before ts d)) =
           practice_logs d @
           [\<lparr>l_id = next_id (map l_id (practice_logs d)), l_user_id = uid,
             l_practice_id = pid, duration_actual = actual, l_notes = nts,
             consciousness_before = level_before,
             consciousness_after =
               level_before + target_level p *
                 min (real_of_int actual / real_of_int (duration_minutes p)) 1.5 * 0.1,
             logged_at = ts\<rparr>]
       \<and> users (snd (log_practice uid pid actual nts level_before ts d)) =
           set_level uid
             (level_before + target_level p *
                min (real_of_int actual / real_of_int (duration_minutes p)) 1.5 * 0.1)
             (users d)
       \<and> (\<forall>r \<in> set (users (snd (log_practice uid pid actual nts level_before ts d))).
             u_id r = uid \<longrightarrow>
             consciousness_level r =
               level_before + target_level p *
                 min (real_of_int actual / real_of_int (duration_minutes p)) 1.5 * 0.1)
       \<and> (0 < duration_minutes p \<and> 1.5 * real_of_int (duration_minutes p) \<le> real_of_int actual
             \<longrightarrow> fst (log_practice uid pid actual nts level_before ts d) =
                   Inr (level_before + target_level p * 1.5 * 0.1))
       \<and> (actual = 15 \<and> duration_minutes p = 10 \<and> target_level p = 1.5 \<and> level_before = 1
             \<longrightarrow> fst (log_practice uid pid actual nts level_before ts d) = Inr 1.225)"
proof -
  let ?T = "real_of_int (duration_minutes p)"
  let ?after = "level_before + target_level p * min (real_of_int actual / ?T) 1.5 * 0.1"
  let ?res = "log_practice uid pid actual nts level_before ts d"
  note res = log_practice_found[OF assms(1) assms(2) assms(3) assms(4), of nts level_before ts]
  have c1: "fst ?res = Inr ?after"
    by (simp add: res)
  have c2: "practice_logs (snd ?res) =
           practice_logs d @
           [\<lparr>l_id = next_id (map l_id (practice_logs d)), l_user_id = uid,
             l_practice_id = pid, duration_actual = actual, l_notes = nts,
             consciousness_before = level_before, consciousness_after = ?after,
             logged_at = ts\<rparr>]"
    by (simp add: res)
  have c3: "users (snd ?res) = set_level uid ?after (users d)"
    by (simp add: res)
  have c4: "\<forall>r \<in> set (users (snd ?res)). u_id r = uid \<longrightarrow> consciousness_level r = ?after"
    unfolding c3 using set_level_levels by blast
  have c5: "0 < duration_minutes p \<and> 1.5 * ?T \<le> real_of_int actual
             \<longrightarrow> fst ?res = Inr (level_before + target_level p * 1.5 * 0.1)"
  proof
    assume h: "0 < duration_minutes p \<and> 1.5 * ?T \<le> real_of_int actual"
    then have "1.5 \<le> real_of_int actual / ?T"
      by (simp add: pos_le_divide_eq)
    then have "min (real_of_int actual / ?T) 1.5 = 1.5"
      by simp
    then show "fst ?res = Inr (level_before + target_level p * 1.5 * 0.1)"
      unfolding c1 by simp
  qed
  have c6: "actual = 15 \<and> duration_minutes p = 10 \<and> target_level p = 1.5 \<and> level_before = 1
             \<longrightarrow> fst ?res = Inr 1.225"
  proof
    assume h: "actual = 15 \<and> duration_minutes p = 10 \<and> target_level p = 1.5 \<and> level_before = 1"
    then have "?after = 1.225" by simp
    then show "fst ?res = Inr 1.225"
      unfolding c1 by simp
  qed
  show ?thesis by (intro conjI c1 c2 c3 c4 c5 c6)
qed

lemma users_demo_db:
  "users demo_db =
     [\<lparr>u_id = 1, username = ''ahmad'', email = ''ahmed@firah.demo'',
       fitra_type = ''mustakshif'', consciousness_level = 1, u_created_at = ''t4'',
       journey_data = [(journey_start_key, ''n4'')]\<rparr>]"
  by (simp add: demo_db_eq)

lemma practice_logs_demo_db: "practice_logs demo_db = []"
  by (simp add: demo_db_eq)

lemma demo_practice_nonzero:
  "duration_minutes \<lparr>p_id = 1, title = ''fitri'', practice_type = ''taammul'',
     content = ''sit'', duration_minutes = 10, target_level = 1.5, p_created_at = ''t1''\<rparr> \<noteq> 0"
  by simp

lemma sqlite_int_small: "sqlite_int 1" "sqlite_int 15" "sqlite_int 400"
  "sqlite_int 9223372036854775807" "\<not> sqlite_int 9223372036854775808"
  by (simp_all add: sqlite_int_def)

theorem log_practice_level_witness:
  "fst (log_practice 1 1 15 ''deep'' 1 ''t7'' demo_db) = Inr 1.225
   \<and> fst (log_practice 1 1 400 ''deep'' 1 ''t7'' demo_db) = Inr 1.225
   \<and> fst (log_practice 1 1 9223372036854775807 ''deep'' 1 ''t7'' demo_db) = Inr 1.225
   \<and> map consciousness_after
        (practice_logs (snd (log_practice 1 1 15 ''deep'' 1 ''t7'' demo_db))) = [1.225]
   \<and> map consciousness_level
        (users (snd (log_practice 1 1 15 ''deep'' 1 ''t7'' demo_db))) = [1.225]"
proof -
  note a = log_practice_level[OF find_practice_demo_1 demo_practice_nonzero
      sqlite_int_small(1) sqlite_int_small(2) sqlite_int_small(1), of "''deep''" 1 "''t7''"]
  note b = log_practice_level[OF find_practice_demo_1 demo_practice_nonzero
      sqlite_int_small(1) sqlite_int_small(3) sqlite_int_small(1), of "''deep''" 1 "''t7''"]
  note c = log_practice_level[OF find_practice_demo_1 demo_practice_nonzero
      sqlite_int_small(1) sqlite_int_small(4) sqlite_int_small(1), of "''deep''" 1 "''t7''"]
  have 1: "fst (log_practice 1 1 15 ''deep'' 1 ''t7'' demo_db) = Inr 1.225"
    using a by simp
  have 2: "fst (log_practice 1 1 400 ''deep'' 1 ''t7'' demo_db) = Inr 1.225"
    using b by simp
  have 3: "fst (log_practice 1 1 9223372036854775807 ''deep'' 1 ''t7'' demo_db) = Inr 1.225"
    using c by simp
  have "practice_logs (snd (log_practice 1 1 15 ''deep'' 1 ''t7'' demo_db)) =
      [\<lparr>l_id = next_id [], l_user_id = 1, l_practice_id = 1, duration_actual = 15,
        l_notes = ''deep'', consciousness_before = 1, consciousness_after = 1.225,
        logged_at = ''t7''\<rparr>]"
    using a by (simp add: practice_logs_demo_db)
  then have 4: "map consciousness_after
        (practice_logs (snd (log_practice 1 1 15 ''deep'' 1 ''t7'' demo_db))) = [1.225]"
    by simp
  have "users (snd (log_practice 1 1 15 ''deep'' 1 ''t7'' demo_db)) =
      set_level 1 1.225 (users demo_db)"
    using a by simp
  then have 5: "map consciousness_level
        (users (snd (log_practice 1 1 15 ''deep'' 1 ''t7'' demo_db))) = [1.225]"
    by (simp add: users_demo_db set_level_def)
  show ?thesis by (intro conjI 1 2 3 4 5)
qed

theorem log_practice_level_counterexample:
  "find_practice 1 (add_practice ''p'' ''q'' ''r'' 0 1.5 ''t'' create_tables) \<noteq> None
   \<and> fst (log_practice 1 1 15 ''n'' 1 ''t''
            (add_practice ''p'' ''q'' ''r'' 0 1.5 ''t'' create_tables)) = Inl ZeroDivisionError
   \<and> find_practice 1 (add_practice ''p'' ''q'' ''r'' (- 10) 1.5 ''t'' create_tables) \<noteq> None
   \<and> 1.5 * real_of_int (- 10) \<le> real_of_int 0
   \<and> 1.5 * real_of_int (- 10) \<le> real_of_int 10
   \<and> fst (log_practice 1 1 0 ''n'' 1 ''t''
            (add_practice ''p'' ''q'' ''r'' (- 10) 1.5 ''t'' create_tables)) = Inr 1
   \<and> fst (log_practice 1 1 10 ''n'' 1 ''t''
            (add_practice ''p'' ''q'' ''r'' (- 10) 1.5 ''t'' create_tables)) = Inr 0.85
   \<and> find_practice 1 (add_practice ''p'' ''q'' ''r'' 10 1.5 ''t'' create_tables) \<noteq> None
   \<and> 1.5 * real_of_int 10 \<le> real_of_int 9223372036854775808
   \<and> log_practice 1 1 9223372036854775808 ''n'' 1 ''t''
         (add_practice ''p'' ''q'' ''r'' 10 1.5 ''t'' create_tables) =
       (Inl OverflowError, add_practice ''p'' ''q'' ''r'' 10 1.5 ''t'' create_tables)"
  by (simp add: log_practice_def find_practice_def add_practice_def create_tables_def
      next_id_def sqlite_int_def Let_def)

subsection \<open>The stored level is overwritten\<close>

text \<open>
  C10, as the code has it. On a template whose target duration is not 0, for ids and
  an actual duration within SQLite's integer range, the call leaves the same database
  whatever level was stored for the user before it (overwriting the stored level with any
  \<open>v\<close> first changes nothing), and every row of the user then holds
  \<open>level_before + L * min (actual / T) 1.5 * 0.1\<close>. The stored level decreases when that
  value is below the level stored before. A \<open>level_before\<close> below the stored level is not
  enough for that, and on a template of duration 0 or with an actual duration out of
  range the call raises and the stored level stays what it was
  (\<open>log_practice_overwrites_counterexample\<close>).
\<close>

theorem log_practice_overwrites:
  assumes "find_practice pid d = Some p" and "duration_minutes p \<noteq> 0"
    and "sqlite_int uid" and "sqlite_int actual" and "sqlite_int pid"
  shows "snd (log_practice uid pid actual nts level_before ts
               (d\<lparr>users := set_level uid v (users d)\<rparr>)) =
         snd (log_practice uid pid actual nts level_before ts d)
       \<and> users (snd (log_practice uid pid actual nts level_before ts d)) =
           set_level uid
             (level_before + target_level p *
                min (real_of_int actual / real_of_int (duration_minutes p)) 1.5 * 0.1)
             (users d)
       \<and> (\<forall>r \<in> set (users (snd (log_practice uid pid actual nts level_before ts d))).
             u_id r = uid \<longrightarrow>
             consciousness_level r =
               level_before + target_level p *
                 min (real_of_int actual / real_of_int (duration_minutes p)) 1.5 * 0.1)
       \<and> (\<forall>r. find_user uid d = Some r \<and>
               level_before + target_level p *
                 min (real_of_int actual / real_of_int (duration_minutes p)) 1.5 * 0.1
               < consciousness_level r \<longrightarrow>
               (\<exists>r'. find_user uid (snd (log_practice uid pid actual nts level_before ts d)) =
                       Some r'
                   \<and> consciousness_level r' < consciousness_level r))"
proof -
  let ?after = "level_before + target_level p *
                 min (real_of_int actual / real_of_int (duration_minutes p)) 1.5 * 0.1"
  let ?res = "log_practice uid pid actual nts level_before ts d"
  let ?dv = "d\<lparr>users := set_level uid v (users d)\<rparr>"
  have fp: "find_practice pid ?dv = Some p"
    using assms(1) by (simp add: find_practice_def)
  note res = log_practice_found[OF assms(1) assms(2) assms(3) assms(4), of nts level_before ts]
  note resv = log_practice_found[OF fp assms(2) assms(3) assms(4), of nts level_before ts]
  have c1: "snd (log_practice uid pid actual nts level_before ts ?dv) = snd ?res"
    by (simp add: res resv set_level_idem)
  have c2: "users (snd ?res) = set_level uid ?after (users d)"
    by (simp add: res)
  have c3: "\<forall>r \<in> set (users (snd ?res)). u_id r = uid \<longrightarrow> consciousness_level r = ?after"
    unfolding c2 using set_level_levels by blast
  have c4: "\<forall>r. find_user uid d = Some r \<and> ?after < consciousness_level r \<longrightarrow>
               (\<exists>r'. find_user uid (snd ?res) = Some r'
                   \<and> consciousness_level r' < consciousness_level r)"
  proof (intro allI impI)
    fix r assume h: "find_user uid d = Some r \<and> ?after < consciousness_level r"
    then have f: "find (\<lambda>r. u_id r = uid) (users d) = Some r"
      by (simp add: find_user_def)
    then have "u_id r = uid"
      by (auto simp: find_Some_iff)
    with f have "find_user uid (snd ?res) = Some (r\<lparr>consciousness_level := ?after\<rparr>)"
      by (simp add: find_user_def c2 find_user_set_level)
    with h show "\<exists>r'. find_user uid (snd ?res) = Some r'
                   \<and> consciousness_level r' < consciousness_level r"
      by simp
  qed
  show ?thesis by (intro conjI c1 c2 c3 c4)
qed

theorem log_practice_overwrites_witness:
  "map consciousness_level (users demo_db) = [1]
   \<and> map consciousness_level
        (users (snd (log_practice 1 1 15 ''n'' 0.5 ''t7'' demo_db))) = [0.725]
   \<and> snd (log_practice 1 1 15 ''n'' 0.5 ''t7''
            (demo_db\<lparr>users := set_level 1 3 (users demo_db)\<rparr>)) =
       snd (log_practice 1 1 15 ''n'' 0.5 ''t7'' demo_db)"
proof -
  note a = log_practice_overwrites[OF find_practice_demo_1 demo_practice_nonzero
      sqlite_int_small(1) sqlite_int_small(2) sqlite_int_small(1), of "''n''" "0.5" "''t7''" 3]
  have 1: "map consciousness_level (users demo_db) = [1]"
    by (simp add: users_demo_db)
  have "users (snd (log_practice 1 1 15 ''n'' 0.5 ''t7'' demo_db)) =
      set_level 1 0.725 (users demo_db)"
    using a by simp
  then have 2: "map consciousness_level
        (users (snd (log_practice 1 1 15 ''n'' 0.5 ''t7'' demo_db))) = [0.725]"
    by (simp add: users_demo_db set_level_def)
  have 3: "snd (log_practice 1 1 15 ''n'' 0.5 ''t7''
            (demo_db\<lparr>users := set_level 1 3 (users demo_db)\<rparr>)) =
       snd (log_practice 1 1 15 ''n'' 0.5 ''t7'' demo_db)"
    using a by blast
  show ?thesis by (intro conjI 1 2 3)
qed

theorem log_practice_overwrites_counterexample:
  "map consciousness_level (users demo_db) = [1]
   \<and> (0.9 :: real) < 1
   \<and> map consciousness_level
        (users (snd (log_practice 1 1 15 ''n'' 0.9 ''t7'' demo_db))) = [1.125]
   \<and> \<not> (1.125 < (1 :: real))
   \<and> find_practice 4 (add_practice ''p'' ''q'' ''r'' 0 1.5 ''t'' demo_db) \<noteq> None
   \<and> map consciousness_level
        (users (snd (log_practice 1 4 15 ''n'' 0.9 ''t7''
                      (add_practice ''p'' ''q'' ''r'' 0 1.5 ''t'' demo_db)))) = [1]
   \<and> find_practice 1 demo_db \<noteq> None
   \<and> log_practice 1 1 9223372036854775808 ''n'' 0.5 ''t7'' demo_db =
       (Inl OverflowError, demo_db)"
  by (simp add: demo_db_eq log_practice_def find_practice_def add_practice_def set_level_def
      next_id_def sqlite_int_def Let_def)

subsection \<open>Registration\<close>

lemma find_user_new:
  "find_user (next_id (map u_id rows)) (d\<lparr>users := rows @ [r]\<rparr>) =
     (if u_id r = next_id (map u_id rows) then Some r else None)"
proof -
  have "find (\<lambda>x. u_id x = next_id (map u_id rows)) rows = None"
    using next_id_not_mem[of "map u_id rows"] by (force simp: find_None_iff)
  then show ?thesis
    by (simp add: find_user_def find_snoc)
qed

lemma duplicate_key_iff:
  "duplicate_key name mail d \<longleftrightarrow> (\<exists>r \<in> set (users d). username r = name \<or> email r = mail)"
  by (simp add: duplicate_key_def list_ex_iff)

lemma register_duplicate:
  "duplicate_key name mail d \<Longrightarrow> register u name mail fitra now ts d = (False, u, d)"
  by (simp add: register_def)

lemma register_new:
  assumes "\<not> duplicate_key name mail d"
  shows "register u name mail fitra now ts d =
     (True,
      u\<lparr>user_id := Some (next_id (map u_id (users d))),
        user_data :=
          user_dict
            \<lparr>u_id = next_id (map u_id (users d)), username = name, email = mail,
              fitra_type = fitra, consciousness_level = 1, u_created_at = ts,
              journey_data = [(journey_start_key, now)]\<rparr>\<rparr>,
      d\<lparr>users := users d @
          [\<lparr>u_id = next_id (map u_id (users d)), username = name, email = mail,
            fitra_type = fitra, consciousness_level = 1, u_created_at = ts,
            journey_data = [(journey_start_key, now)]\<rparr>]\<rparr>)"
  using assms by (simp add: register_def Let_def load_user_data_def find_user_new)

text \<open>
  C3. When some user row already has the given handle or the given address,
  \<^verbatim>\<open>register\<close> returns \<^verbatim>\<open>False\<close> (the \<^verbatim>\<open>IntegrityError\<close> of the unique columns, the spec's
  \<open>DuplicateKey\<close>) and leaves the database, and so the row of the user registered before,
  as it was. When no row has either, it returns \<^verbatim>\<open>True\<close> and appends one user row with
  a fresh id, level 1.0 and a journey blob that holds the registration time under the
  start-of-journey key; the other rows and tables are untouched and the object is loaded
  with the new row.
\<close>

theorem register_duplicate_or_new:
  "((\<exists>r \<in> set (users d). username r = name \<or> email r = mail) \<longrightarrow>
      register u name mail fitra now ts d = (False, u, d))
   \<and> (\<not> (\<exists>r \<in> set (users d). username r = name \<or> email r = mail) \<longrightarrow>
      register u name mail fitra now ts d =
        (True,
         u\<lparr>user_id := Some (next_id (map u_id (users d))),
           user_data :=
             user_dict
               \<lparr>u_id = next_id (map u_id (users d)), username = name, email = mail,
                 fitra_type = fitra, consciousness_level = 1, u_created_at = ts,
                 journey_data = [(journey_start_key, now)]\<rparr>\<rparr>,
         d\<lparr>users := users d @
             [\<lparr>u_id = next_id (map u_id (users d)), username = name, email = mail,
               fitra_type = fitra, consciousness_level = 1, u_created_at = ts,
               journey_data = [(journey_start_key, now)]\<rparr>]\<rparr>)
      \<and> next_id (map u_id (users d)) \<notin> u_id ` set (users d))"
proof (intro conjI impI)
  assume "\<exists>r \<in> set (users d). username r = name \<or> email r = mail"
  then have "duplicate_key name mail d" by (simp add: duplicate_key_iff)
  then show "register u name mail fitra now ts d = (False, u, d)"
    by (rule register_duplicate)
next
  assume "\<not> (\<exists>r \<in> set (users d). username r = name \<or> email r = mail)"
  then have "\<not> duplicate_key name mail d" by (simp add: duplicate_key_iff)
  then show "register u name mail fitra now ts d =
        (True,
         u\<lparr>user_id := Some (next_id (map u_id (users d))),
           user_data :=
             user_dict
               \<lparr>u_id = next_id (map u_id (users d)), username = name, email = mail,
                 fitra_type = fitra, consciousness_level = 1, u_created_at = ts,
                 journey_data = [(journey_start_key, now)]\<rparr>\<rparr>,
         d\<lparr>users := users d @
             [\<lparr>u_id = next_id (map u_id (users d)), username = name, email = mail,
               fitra_type = fitra, consciousness_level = 1, u_created_at = ts,
               journey_data = [(journey_start_key, now)]\<rparr>]\<rparr>)"
    by (rule register_new)
next
  show "next_id (map u_id (users d)) \<notin> u_id ` set (users d)"
    using next_id_not_mem[of "map u_id (users d)"] by simp
qed

theorem register_duplicate_or_new_witness:
  "register new_user ''ahmad'' ''other@firah.demo'' ''qaid'' ''n8'' ''t8'' demo_db =
     (False, new_user, demo_db)
   \<and> register new_user ''salma'' ''ahmed@firah.demo'' ''qaid'' ''n8'' ''t8'' demo_db =
     (False, new_user, demo_db)
   \<and> fst (register new_user ''salma'' ''salma@firah.demo'' ''qaid'' ''n8'' ''t8'' demo_db) = True
   \<and> users (snd (snd (register new_user ''salma'' ''salma@firah.demo'' ''qaid'' ''n8'' ''t8''
                        demo_db))) =
       users demo_db @
       [\<lparr>u_id = 2, username = ''salma'', email = ''salma@firah.demo'', fitra_type = ''qaid'',
         consciousness_level = 1, u_created_at = ''t8'',
         journey_data = [(journey_start_key, ''n8'')]\<rparr>]"
proof -
  have d1: "\<exists>r \<in> set (users demo_db). username r = ''ahmad'' \<or> email r = ''other@firah.demo''"
    by (simp add: users_demo_db)
  have d2: "\<exists>r \<in> set (users demo_db). username r = ''salma'' \<or> email r = ''ahmed@firah.demo''"
    by (simp add: users_demo_db)
  have d3: "\<not> (\<exists>r \<in> set (users demo_db). username r = ''salma'' \<or> email r = ''salma@firah.demo'')"
    by (simp add: users_demo_db)
  have n: "next_id (map u_id (users demo_db)) = 2"
    by (simp add: users_demo_db next_id_def)
  have 1: "register new_user ''ahmad'' ''other@firah.demo'' ''qaid'' ''n8'' ''t8'' demo_db =
     (False, new_user, demo_db)"
    using register_duplicate_or_new[of demo_db "''ahmad''" "''other@firah.demo''" new_user
        "''qaid''" "''n8''" "''t8''"] d1
    by blast
  have 2: "register new_user ''salma'' ''ahmed@firah.demo'' ''qaid'' ''n8'' ''t8'' demo_db =
     (False, new_user, demo_db)"
    using register_duplicate_or_new[of demo_db "''salma''" "''ahmed@firah.demo''" new_user
        "''qaid''" "''n8''" "''t8''"] d2
    by blast
  have r: "register new_user ''salma'' ''salma@firah.demo'' ''qaid'' ''n8'' ''t8'' demo_db =
        (True,
         new_user\<lparr>user_id := Some (next_id (map u_id (users demo_db))),
           user_data :=
             user_dict
               \<lparr>u_id = next_id (map u_id (users demo_db)), username = ''salma'',
                 email = ''salma@firah.demo'', fitra_type = ''qaid'', consciousness_level = 1,
                 u_created_at = ''t8'', journey_data = [(journey_start_key, ''n8'')]\<rparr>\<rparr>,
         demo_db\<lparr>users := users demo_db @
             [\<lparr>u_id = next_id (map u_id (users demo_db)), username = ''salma'',
               email = ''salma@firah.demo'', fitra_type = ''qaid'', consciousness_level = 1,
               u_created_at = ''t8'', journey_data = [(journey_start_key, ''n8'')]\<rparr>]\<rparr>)"
    using register_duplicate_or_new[of demo_db "''salma''" "''salma@firah.demo''" new_user
        "''qaid''" "''n8''" "''t8''"] d3
    by blast
  have 3: "fst (register new_user ''salma'' ''salma@firah.demo'' ''qaid'' ''n8'' ''t8'' demo_db)
      = True"
    by (simp add: r)
  have 4: "users (snd (snd (register new_user ''salma'' ''salma@firah.demo'' ''qaid'' ''n8'' ''t8''
                        demo_db))) =
       users demo_db @
       [\<lparr>u_id = 2, username = ''salma'', email = ''salma@firah.demo'', fitra_type = ''qaid'',
         consciousness_level = 1, u_created_at = ''t8'',
         journey_data = [(journey_start_key, ''n8'')]\<rparr>]"
    by (simp add: r n)
  show ?thesis by (intro conjI 1 2 3 4)
qed

subsection \<open>Membership\<close>












subsection \<open>What one call does to each table\<close>

lemma run_Nil: "run [] d = d"
  by (simp add: run_def)

lemma run_Cons: "run (c # cs) d = run cs (apply_op c d)"
  by (simp add: run_def)

lemma run_append: "run (cs @ cs') d = run cs' (run cs d)"
  by (simp add: run_def)

lemma run_snoc: "run (cs @ [c]) d = apply_op c (run cs d)"
  by (simp add: run_def)

lemma insights_apply_op:
  "insights (apply_op c d) =
     insights d @
     (case c of
        AddInsight u ttl txt itype ts \<Rightarrow>
          [\<lparr>i_id = next_id (map i_id (insights d)), i_user_id = user_id u,
            i_circle_id = None, i_title = ttl, i_content = txt, insight_type = itype,
            is_shared = 0, i_created_at = ts\<rparr>]
      | _ \<Rightarrow> [])"
proof (cases c)
  case (Register u a b f n t)
  then show ?thesis by (simp add: register_def Let_def)
next
  case (UpdateConsciousness u v)
  then show ?thesis by (simp add: update_consciousness_def split: option.split)
next
  case (AddInsight u ttl body itype ts)
  then show ?thesis by (simp add: add_insight_def)
next
  case (GetJourneySummary u)
  then show ?thesis by (simp add: get_journey_summary_def Let_def split: option.split)
next
  case (CreateCircle name descr admin ctype ts ts2)
  then show ?thesis by (simp add: create_circle_def add_member_def insert_or_replace_member_def Let_def)
next
  case (AddMember cid uid rl ts)
  then show ?thesis by (simp add: add_member_def insert_or_replace_member_def)
next
  case (SetCollectiveIntention cid body)
  then show ?thesis by (simp add: set_collective_intention_def)
next
  case (GetCircleInfo cid)
  then show ?thesis by (simp add: get_circle_info_def Let_def split: option.split)
next
  case (AddPractice ttl ptype body minutes level ts)
  then show ?thesis by (simp add: add_practice_def)
next
  case (LogPractice uid pid actual nts level_before ts)
  then show ?thesis by (simp add: log_practice_def Let_def split: option.split)
qed simp

lemma practice_logs_apply_op:
  "practice_logs (apply_op c d) =
     practice_logs d @
     (case c of
        LogPractice uid pid actual nts level_before ts \<Rightarrow>
          (case fst (log_practice uid pid actual nts level_before ts d) of
             Inr a \<Rightarrow>
               [\<lparr>l_id = next_id (map l_id (practice_logs d)), l_user_id = uid,
                 l_practice_id = pid, duration_actual = actual, l_notes = nts,
                 consciousness_before = level_before, consciousness_after = a,
                 logged_at = ts\<rparr>]
           | Inl e \<Rightarrow> [])
      | _ \<Rightarrow> [])"
proof (cases c)
  case (Register u a b f n t)
  then show ?thesis by (simp add: register_def Let_def)
next
  case (UpdateConsciousness u v)
  then show ?thesis by (simp add: update_consciousness_def split: option.split)
next
  case (AddInsight u ttl body itype ts)
  then show ?thesis by (simp add: add_insight_def)
next
  case (GetJourneySummary u)
  then show ?thesis by (simp add: get_journey_summary_def Let_def split: option.split)
next
  case (CreateCircle name descr admin ctype ts ts2)
  then show ?thesis by (simp add: create_circle_def add_member_def insert_or_replace_member_def Let_def)
next
  case (AddMember cid uid rl ts)
  then show ?thesis by (simp add: add_member_def insert_or_replace_member_def)
next
  case (SetCollectiveIntention cid body)
  then show ?thesis by (simp add: set_collective_intention_def)
next
  case (GetCircleInfo cid)
  then show ?thesis by (simp add: get_circle_info_def Let_def split: option.split)
next
  case (AddPractice ttl ptype body minutes level ts)
  then show ?thesis by (simp add: add_practice_def)
next
  case (LogPractice uid pid actual nts level_before ts)
  then show ?thesis by (simp add: log_practice_def Let_def split: option.split)
qed simp

lemma users_apply_op:
  "users (apply_op c d) = users d
   \<or> (\<exists>x. users (apply_op c d) = users d @ [x])
   \<or> (\<exists>i v. users (apply_op c d) = set_level i v (users d))"
proof (cases c)
  case (Register u a b f n t)
  then show ?thesis by (simp add: register_def Let_def)
next
  case (UpdateConsciousness u v)
  then show ?thesis
    by (cases "user_id u") (auto simp: update_consciousness_def)
next
  case (AddInsight u ttl body itype ts)
  then show ?thesis by (simp add: add_insight_def)
next
  case (GetJourneySummary u)
  then show ?thesis by (simp add: get_journey_summary_def Let_def split: option.split)
next
  case (CreateCircle name descr admin ctype ts ts2)
  then show ?thesis by (simp add: create_circle_def add_member_def insert_or_replace_member_def Let_def)
next
  case (AddMember cid uid rl ts)
  then show ?thesis by (simp add: add_member_def insert_or_replace_member_def)
next
  case (SetCollectiveIntention cid body)
  then show ?thesis by (simp add: set_collective_intention_def)
next
  case (GetCircleInfo cid)
  then show ?thesis by (simp add: get_circle_info_def Let_def split: option.split)
next
  case (AddPractice ttl ptype body minutes level ts)
  then show ?thesis by (simp add: add_practice_def)
next
  case (LogPractice uid pid actual nts level_before ts)
  show ?thesis
  proof (cases "find_practice pid d")
    case None
    with LogPractice show ?thesis by (simp add: log_practice_def)
  next
    case (Some p)
    show ?thesis
    proof (cases "duration_minutes p = 0")
      case True
      with Some LogPractice show ?thesis by (simp add: log_practice_def)
    next
      case False
      show ?thesis
      proof (cases "sqlite_int uid \<and> sqlite_int actual")
        case True
        then have r: "sqlite_int uid" "sqlite_int actual" by simp_all
        from log_practice_found[OF Some False r, of nts level_before ts] LogPractice
        show ?thesis by auto
      next
        case nr: False
        from log_practice_overflow[OF Some False nr, of nts level_before ts] LogPractice
        show ?thesis by simp
      qed
    qed
  qed
qed simp

subsection \<open>Insights are private and belong to no circle\<close>

lemma insights_run_private:
  "\<forall>r \<in> set (insights d). i_circle_id r = None \<and> is_shared r = 0 \<Longrightarrow>
   \<forall>r \<in> set (insights (run cs d)). i_circle_id r = None \<and> is_shared r = 0"
proof (induction cs arbitrary: d)
  case Nil
  then show ?case by (simp add: run_Nil)
next
  case (Cons c cs)
  have "\<forall>r \<in> set (insights (apply_op c d)). i_circle_id r = None \<and> is_shared r = 0"
    using Cons.prems by (auto simp: insights_apply_op split: op.split)
  then show ?case
    unfolding run_Cons by (rule Cons.IH)
qed

text \<open>
  C9. \<^verbatim>\<open>add_insight\<close> takes a title, a content and a type and nothing else; the one row
  it appends has no circle (\<open>i_circle_id = None\<close>) and is not shared (\<open>is_shared = 0\<close>).
  No other method writes to the table, so in every database that a sequence of calls
  builds from the empty tables, every insight has no circle and is not shared.
\<close>

theorem add_insight_private:
  "insights (add_insight u ttl txt itype ts d) =
     insights d @
     [\<lparr>i_id = next_id (map i_id (insights d)), i_user_id = user_id u, i_circle_id = None,
       i_title = ttl, i_content = txt, insight_type = itype, is_shared = 0,
       i_created_at = ts\<rparr>]
   \<and> (\<forall>r \<in> set (insights (run cs create_tables)). i_circle_id r = None \<and> is_shared r = 0)"
proof
  show "insights (add_insight u ttl txt itype ts d) =
     insights d @
     [\<lparr>i_id = next_id (map i_id (insights d)), i_user_id = user_id u, i_circle_id = None,
       i_title = ttl, i_content = txt, insight_type = itype, is_shared = 0,
       i_created_at = ts\<rparr>]"
    by (simp add: add_insight_def)
next
  have "\<forall>r \<in> set (insights create_tables). i_circle_id r = None \<and> is_shared r = 0"
    by (simp add: create_tables_def)
  then show "\<forall>r \<in> set (insights (run cs create_tables)). i_circle_id r = None \<and> is_shared r = 0"
    by (rule insights_run_private)
qed

subsection \<open>The demonstration run, evaluated\<close>

lemma run_demo_calls: "run demo_calls create_tables = demo_db"
  by (simp add: demo_db_def)

lemma demo_user_eq:
  "demo_user =
     \<lparr>user_id = Some 1,
      user_data =
        user_dict
          \<lparr>u_id = 1, username = ''ahmad'', email = ''ahmed@firah.demo'',
            fitra_type = ''mustakshif'', consciousness_level = 1, u_created_at = ''t4'',
            journey_data = [(journey_start_key, ''n4'')]\<rparr>\<rparr>"
proof -
  have nd: "\<not> duplicate_key ''ahmad'' ''ahmed@firah.demo'' (run (take 3 demo_calls) create_tables)"
    by (simp add: demo_calls_def run_def create_tables_def add_practice_def duplicate_key_def)
  have u: "users (run (take 3 demo_calls) create_tables) = []"
    by (simp add: demo_calls_def run_def create_tables_def add_practice_def)
  show ?thesis
    unfolding demo_user_def
    by (simp add: register_new[OF nd] u next_id_def new_user_def FirahUser_def)
qed

lemma user_id_demo_user: "user_id demo_user = Some 1"
  by (simp add: demo_user_eq)

lemma run_demo_session:
  "run demo_session demo_db =
     demo_db
       \<lparr>practice_logs :=
          [\<lparr>l_id = 1, l_user_id = 1, l_practice_id = 1, duration_actual = 15,
            l_notes = ''deep'', consciousness_before = 1, consciousness_after = 1.225,
            logged_at = ''t7''\<rparr>],
        users := set_level 1 1.225 (users demo_db),
        insights :=
          [\<lparr>i_id = 1, i_user_id = Some 1, i_circle_id = None, i_title = ''iktishaf alfitra'',
            i_content = ''compass'', insight_type = ''iktishaf'', is_shared = 0,
            i_created_at = ''t8''\<rparr>]\<rparr>"
proof -
  have nz: "duration_minutes \<lparr>p_id = 1, title = ''fitri'', practice_type = ''taammul'',
     content = ''sit'', duration_minutes = 10, target_level = 1.5, p_created_at = ''t1''\<rparr> \<noteq> 0"
    by simp
  note l = log_practice_found[OF find_practice_demo_1 nz sqlite_int_small(1) sqlite_int_small(2),
      of "''deep''" 1 "''t7''"]
  have i: "insights demo_db = []"
    by (simp add: demo_db_eq)
  show ?thesis
    by (simp add: demo_session_def run_def l add_insight_def practice_logs_demo_db i
        next_id_def user_id_demo_user)
qed

theorem add_insight_private_witness:
  "length (insights (run (demo_calls @ demo_session) create_tables)) = 1
   \<and> list_all (\<lambda>r. i_circle_id r = None \<and> is_shared r = 0)
       (insights (run (demo_calls @ demo_session) create_tables))"
proof -
  have 1: "length (insights (run (demo_calls @ demo_session) create_tables)) = 1"
    by (simp add: run_append run_demo_calls run_demo_session)
  have 2: "list_all (\<lambda>r. i_circle_id r = None \<and> is_shared r = 0)
       (insights (run (demo_calls @ demo_session) create_tables))"
    unfolding list_all_iff
    using add_insight_private[of demo_user "''a''" "''b''" "''c''" "''t''" demo_db
        "demo_calls @ demo_session"]
    by (rule conjunct2)
  show ?thesis by (intro conjI 1 2)
qed

subsection \<open>The journey summary\<close>

lemma insight_calls_Cons:
  "insight_calls uid (c # cs) = insight_calls uid [c] + insight_calls uid cs"
  by (cases c) simp_all

lemma count_insights_apply_op:
  "count_insights (Some uid) (apply_op c d) =
     count_insights (Some uid) d + insight_calls uid [c]"
  by (simp add: count_insights_def insights_apply_op split: op.split)

lemma count_insights_run:
  "count_insights (Some uid) (run cs d) = count_insights (Some uid) d + insight_calls uid cs"
proof (induction cs arbitrary: d)
  case Nil
  then show ?case by (simp add: run_Nil)
next
  case (Cons c cs)
  show ?case
    unfolding run_Cons Cons.IH count_insights_apply_op
    by (subst (2) insight_calls_Cons) simp
qed

lemma count_practice_logs_apply_op:
  "count_practice_logs (Some uid) (apply_op c d) =
     count_practice_logs (Some uid) d + (if log_succeeds uid c d then 1 else 0)"
  by (auto simp: count_practice_logs_def practice_logs_apply_op log_succeeds_def
      split: op.split sum.split)

lemma count_practice_logs_run:
  "count_practice_logs (Some uid) (run cs d) =
     count_practice_logs (Some uid) d + log_calls uid cs d"
proof (induction cs arbitrary: d)
  case Nil
  then show ?case by (simp add: run_Nil)
next
  case (Cons c cs)
  show ?case
    unfolding run_Cons Cons.IH count_practice_logs_apply_op
    by simp
qed

lemma log_calls_append:
  "log_calls uid (cs @ cs') d = log_calls uid cs d + log_calls uid cs' (run cs d)"
  by (induction cs arbitrary: d) (simp_all add: run_Nil run_Cons)

lemma find_user_apply_op:
  assumes "find_user uid d = Some r"
  shows "\<exists>v. find_user uid (apply_op c d) = Some (r\<lparr>consciousness_level := v\<rparr>)"
proof -
  from assms have f: "find (\<lambda>x. u_id x = uid) (users d) = Some r"
    by (simp add: find_user_def)
  from users_apply_op[of c d] consider
      (same) "users (apply_op c d) = users d"
    | (new) x where "users (apply_op c d) = users d @ [x]"
    | (level) i v where "users (apply_op c d) = set_level i v (users d)"
    by blast
  then show ?thesis
  proof cases
    case same
    with f have "find_user uid (apply_op c d) =
        Some (r\<lparr>consciousness_level := consciousness_level r\<rparr>)"
      by (simp add: find_user_def)
    then show ?thesis ..
  next
    case new
    with f have "find_user uid (apply_op c d) =
        Some (r\<lparr>consciousness_level := consciousness_level r\<rparr>)"
      by (simp add: find_user_def find_snoc)
    then show ?thesis ..
  next
    case level
    show ?thesis
    proof (cases "u_id r = i")
      case True
      with level f have "find_user uid (apply_op c d) = Some (r\<lparr>consciousness_level := v\<rparr>)"
        by (simp add: find_user_def find_user_set_level)
      then show ?thesis ..
    next
      case False
      with level f have "find_user uid (apply_op c d) =
          Some (r\<lparr>consciousness_level := consciousness_level r\<rparr>)"
        by (simp add: find_user_def find_user_set_level)
      then show ?thesis ..
    qed
  qed
qed

lemma loaded_apply_op:
  assumes "loaded u d"
  shows "loaded u (apply_op c d)"
proof -
  from assms obtain uid r where uid: "user_id u = Some uid" and r: "find_user uid d = Some r"
    and data: "user_data u ''username'' = Some (PyStr (username r))"
      "user_data u ''fitra_type'' = Some (PyStr (fitra_type r))"
      "user_data u ''created_at'' = Some (PyStr (u_created_at r))"
    by (auto simp: loaded_def split: option.splits)
  from find_user_apply_op[OF r, of c] obtain v
    where "find_user uid (apply_op c d) = Some (r\<lparr>consciousness_level := v\<rparr>)" ..
  with uid data show ?thesis
    by (simp add: loaded_def)
qed

lemma loaded_run: "loaded u d \<Longrightarrow> loaded u (run cs d)"
proof (induction cs arbitrary: d)
  case Nil
  then show ?case by (simp add: run_Nil)
next
  case (Cons c cs)
  from Cons.prems have "loaded u (apply_op c d)" by (rule loaded_apply_op)
  then show ?case unfolding run_Cons by (rule Cons.IH)
qed

lemma loaded_user_dict:
  "find_user uid d = Some r \<Longrightarrow> loaded \<lparr>user_id = Some uid, user_data = user_dict r\<rparr> d"
  by (simp add: loaded_def user_dict_def)

lemma loaded_load_user_data:
  assumes "user_id u = Some uid" and "find_user uid d = Some r"
  shows "loaded (load_user_data u d) d"
  using assms by (simp add: load_user_data_def loaded_def user_dict_def)

lemma loaded_FirahUser:
  assumes "find_user uid d = Some r" and "uid \<noteq> 0"
  shows "loaded (FirahUser d (Some uid)) d"
  using assms by (simp add: FirahUser_def loaded_load_user_data)

lemma loaded_register:
  assumes "register u name mail fitra now ts d = (True, u', d')"
  shows "loaded u' d'"
proof -
  have nd: "\<not> duplicate_key name mail d"
    using assms by (auto simp: register_def)
  from assms show ?thesis
    unfolding register_new[OF nd]
    by (auto simp: loaded_def find_user_new user_dict_def)
qed

lemma loaded_authenticate:
  assumes "authenticate u name d = (True, u')"
  shows "loaded u' d"
proof -
  from assms obtain r where r: "find (\<lambda>r. username r = name) (users d) = Some r"
    and u': "u' = load_user_data (u\<lparr>user_id := Some (u_id r)\<rparr>) d"
    by (auto simp: authenticate_def split: option.splits)
  from r have "r \<in> set (users d)"
    by (auto simp: find_Some_iff)
  then have "find (\<lambda>x. u_id x = u_id r) (users d) \<noteq> None"
    by (auto simp: find_None_iff)
  then obtain r0 where "find_user (u_id r) d = Some r0"
    by (auto simp: find_user_def)
  then show ?thesis
    unfolding u' by (intro loaded_load_user_data[of _ "u_id r"]) simp_all
qed

lemma loaded_update_consciousness:
  "loaded u d \<Longrightarrow> loaded (fst (update_consciousness u v d)) d"
  by (auto simp: update_consciousness_def loaded_def split: option.splits)

lemma next_id_pos: "1 \<le> next_id ids"
  using fold_max_ge[of 0 ids] by (simp add: next_id_def)

lemma ball_u_id_set_level:
  "(\<forall>x \<in> set (set_level uid v rows). P (u_id x)) \<longleftrightarrow> (\<forall>x \<in> set rows. P (u_id x))"
  by (induction rows) (simp_all add: set_level_def)

lemma users_ids_apply_op:
  assumes "\<forall>i \<in> set (map u_id (users d)). 1 \<le> i"
  shows "\<forall>i \<in> set (map u_id (users (apply_op c d))). 1 \<le> i"
proof (cases c)
  case (Register u a b f n t)
  show ?thesis
  proof (cases "duplicate_key a b d")
    case True
    with assms Register show ?thesis by (simp add: register_duplicate)
  next
    case False
    with assms Register next_id_pos[of "map u_id (users d)"] show ?thesis
      by (auto simp: register_new)
  qed
next
  case (Authenticate u a)
  with assms show ?thesis by simp
next
  case (UpdateConsciousness u v)
  with assms show ?thesis
    by (cases "user_id u") (simp_all add: update_consciousness_def ball_u_id_set_level)
next
  case (AddInsight u ttl body itype ts)
  with assms show ?thesis by (simp add: add_insight_def)
next
  case (GetJourneySummary u)
  with assms show ?thesis by (simp add: get_journey_summary_def Let_def split: option.split)
next
  case (CreateCircle name descr admin ctype ts ts2)
  with assms show ?thesis by (simp add: create_circle_def add_member_def insert_or_replace_member_def Let_def)
next
  case (AddMember cid uid rl ts)
  with assms show ?thesis by (simp add: add_member_def insert_or_replace_member_def)
next
  case (SetCollectiveIntention cid body)
  with assms show ?thesis by (simp add: set_collective_intention_def)
next
  case (GetCircleInfo cid)
  with assms show ?thesis by (simp add: get_circle_info_def Let_def split: option.split)
next
  case (AddPractice ttl ptype body minutes level ts)
  with assms show ?thesis by (simp add: add_practice_def)
next
  case (LogPractice uid pid actual nts level_before ts)
  show ?thesis
  proof (cases "find_practice pid d")
    case None
    with assms LogPractice show ?thesis by (simp add: log_practice_def)
  next
    case (Some p)
    show ?thesis
    proof (cases "duration_minutes p = 0")
      case True
      with assms Some LogPractice show ?thesis by (simp add: log_practice_def)
    next
      case False
      show ?thesis
      proof (cases "sqlite_int uid \<and> sqlite_int actual")
        case True
        then have r: "sqlite_int uid" "sqlite_int actual" by simp_all
        from log_practice_found[OF Some False r, of nts level_before ts] assms LogPractice
        show ?thesis by (simp add: ball_u_id_set_level)
      next
        case nr: False
        from log_practice_overflow[OF Some False nr, of nts level_before ts] assms LogPractice
        show ?thesis by simp
      qed
    qed
  qed
qed

lemma users_ids_run:
  "\<forall>i \<in> set (map u_id (users d)). 1 \<le> i \<Longrightarrow>
   \<forall>i \<in> set (map u_id (users (run cs d))). 1 \<le> i"
proof (induction cs arbitrary: d)
  case Nil
  then show ?case by (simp add: run_Nil)
next
  case (Cons c cs)
  from Cons.prems have "\<forall>i \<in> set (map u_id (users (apply_op c d))). 1 \<le> i"
    by (rule users_ids_apply_op)
  then show ?case unfolding run_Cons by (rule Cons.IH)
qed

lemma loaded_FirahUser_run:
  assumes "find_user uid (run cs create_tables) = Some r"
  shows "loaded (FirahUser (run cs create_tables) (Some uid)) (run cs create_tables)"
proof -
  have "\<forall>i \<in> set (map u_id (users create_tables)). 1 \<le> i"
    by (simp add: create_tables_def)
  then have pos: "\<forall>i \<in> set (map u_id (users (run cs create_tables))). 1 \<le> i"
    by (rule users_ids_run)
  from assms have "r \<in> set (users (run cs create_tables))" "u_id r = uid"
    by (auto simp: find_user_def find_Some_iff)
  with pos have "uid \<noteq> 0" by auto
  with assms show ?thesis by (rule loaded_FirahUser)
qed

text \<open>
  C7, as the code has it. The claim speaks of every user and every sequence of calls,
  but \<^verbatim>\<open>get_journey_summary\<close> takes the name, the category and the registration date
  from the object's \<^verbatim>\<open>user_data\<close>, which is read when the object is made, registers or
  authenticates, and never again. An object made with an id before the row of that id
  exists keeps an empty \<^verbatim>\<open>user_data\<close>, and its summary gives the defaults in place of the
  name, category and date of the user who has the id by then
  (\<open>journey_summary_counts_counterexample\<close>). What holds is this. Take any sequence of
  calls on the empty tables, an object that is loaded for user \<open>uid\<close> at some point of
  it, and any further calls. Then \<^verbatim>\<open>get_journey_summary\<close> on that object finds the user's
  row and returns its name, category and registration date, the level the row holds now,
  the number of \<^verbatim>\<open>add_insight\<close> calls of the whole sequence made for \<open>uid\<close> and the
  number of its \<^verbatim>\<open>log_practice\<close> calls for \<open>uid\<close> that returned a level; the database
  it hands back is the one it received. The objects the program makes for an existing
  user are loaded: the one a successful \<^verbatim>\<open>register\<close> or \<^verbatim>\<open>authenticate\<close> leaves
  (\<open>loaded_register\<close>, \<open>loaded_authenticate\<close>) and the one constructed with the id of a
  user row (\<open>loaded_FirahUser_run\<close>).
\<close>

theorem journey_summary_counts:
  assumes "loaded u (run cs create_tables)" and "user_id u = Some uid"
  shows "\<exists>r. find_user uid (run (cs @ cs') create_tables) = Some r \<and>
     get_journey_summary u (run (cs @ cs') create_tables) =
       (Inr [key_user \<mapsto> PyStr (username r),
             key_fitra \<mapsto> PyStr (fitra_type r),
             key_level \<mapsto> PyFloat (consciousness_level r),
             key_insights \<mapsto> PyInt (int (insight_calls uid (cs @ cs'))),
             key_practices \<mapsto> PyInt (int (log_calls uid (cs @ cs') create_tables)),
             key_registered \<mapsto> PyStr (u_created_at r)],
        run (cs @ cs') create_tables)"
proof -
  let ?d = "run (cs @ cs') create_tables"
  have "loaded u ?d"
    unfolding run_append using assms(1) by (rule loaded_run)
  with assms(2) obtain r where r: "find_user uid ?d = Some r"
    and data: "user_data u ''username'' = Some (PyStr (username r))"
      "user_data u ''fitra_type'' = Some (PyStr (fitra_type r))"
      "user_data u ''created_at'' = Some (PyStr (u_created_at r))"
    by (auto simp: loaded_def split: option.splits)
  have zi: "count_insights (Some uid) create_tables = 0"
    by (simp add: count_insights_def create_tables_def)
  have zl: "count_practice_logs (Some uid) create_tables = 0"
    by (simp add: count_practice_logs_def create_tables_def)
  have ci: "count_insights (Some uid) ?d = insight_calls uid (cs @ cs')"
    unfolding count_insights_run zi by simp
  have cl: "count_practice_logs (Some uid) ?d = log_calls uid (cs @ cs') create_tables"
    unfolding count_practice_logs_run zl by simp
  have "get_journey_summary u ?d =
       (Inr [key_user \<mapsto> PyStr (username r),
             key_fitra \<mapsto> PyStr (fitra_type r),
             key_level \<mapsto> PyFloat (consciousness_level r),
             key_insights \<mapsto> PyInt (int (insight_calls uid (cs @ cs'))),
             key_practices \<mapsto> PyInt (int (log_calls uid (cs @ cs') create_tables)),
             key_registered \<mapsto> PyStr (u_created_at r)],
        ?d)"
    unfolding get_journey_summary_def Let_def assms(2) ci cl
    by (simp add: r data dict_get_def)
  with r show ?thesis by blast
qed

theorem journey_summary_counts_witness:
  "get_journey_summary demo_user
     (run (demo_calls @ demo_session @ [LogPractice 1 9 5 ''x'' 1 ''t9'']) create_tables) =
     (Inr [key_user \<mapsto> PyStr ''ahmad'',
           key_fitra \<mapsto> PyStr ''mustakshif'',
           key_level \<mapsto> PyFloat 1.225,
           key_insights \<mapsto> PyInt 1,
           key_practices \<mapsto> PyInt 1,
           key_registered \<mapsto> PyStr ''t4''],
      run (demo_calls @ demo_session @ [LogPractice 1 9 5 ''x'' 1 ''t9'']) create_tables)"
proof -
  let ?cs' = "demo_session @ [LogPractice 1 9 5 ''x'' 1 ''t9'']"
  have l: "loaded demo_user (run demo_calls create_tables)"
    by (simp add: run_demo_calls demo_user_eq loaded_def find_user_def users_demo_db
        user_dict_def)
  have "practices (run demo_session demo_db) = practices demo_db"
    by (simp add: run_demo_session)
  then have nf: "find_practice 9 (run demo_session demo_db) = None"
    by (simp add: find_practice_def demo_db_eq)
  have fin: "run (demo_calls @ ?cs') create_tables = run demo_session demo_db"
    by (simp add: run_append run_demo_calls run_Cons run_Nil log_practice_def nf)
  have fu: "find_user 1 (run (demo_calls @ ?cs') create_tables) =
      Some \<lparr>u_id = 1, username = ''ahmad'', email = ''ahmed@firah.demo'',
        fitra_type = ''mustakshif'', consciousness_level = 1.225, u_created_at = ''t4'',
        journey_data = [(journey_start_key, ''n4'')]\<rparr>"
    unfolding fin by (simp add: run_demo_session find_user_def users_demo_db set_level_def)
  have ic: "insight_calls 1 (demo_calls @ ?cs') = 1"
    by (simp add: demo_calls_def demo_session_def user_id_demo_user)
  have lc0: "log_calls 1 demo_calls create_tables = 0"
    by (simp add: demo_calls_def log_succeeds_def)
  have nz: "duration_minutes \<lparr>p_id = 1, title = ''fitri'', practice_type = ''taammul'',
     content = ''sit'', duration_minutes = 10, target_level = 1.5, p_created_at = ''t1''\<rparr> \<noteq> 0"
    by simp
  note lp = log_practice_found[OF find_practice_demo_1 nz sqlite_int_small(1) sqlite_int_small(2),
      of "''deep''" 1 "''t7''"]
  have s1: "log_calls 1 demo_session demo_db = 1"
    by (simp add: demo_session_def log_succeeds_def lp)
  have s2: "log_calls 1 [LogPractice 1 9 5 ''x'' 1 ''t9''] (run demo_session demo_db) = 0"
    by (simp add: log_succeeds_def log_practice_def nf)
  have lc: "log_calls 1 (demo_calls @ ?cs') create_tables = 1"
    by (simp only: log_calls_append lc0 s1 s2 run_demo_calls)
  from journey_summary_counts[OF l user_id_demo_user, of ?cs'] obtain r
    where r: "find_user 1 (run (demo_calls @ ?cs') create_tables) = Some r"
      and s: "get_journey_summary demo_user (run (demo_calls @ ?cs') create_tables) =
       (Inr [key_user \<mapsto> PyStr (username r),
             key_fitra \<mapsto> PyStr (fitra_type r),
             key_level \<mapsto> PyFloat (consciousness_level r),
             key_insights \<mapsto> PyInt (int (insight_calls 1 (demo_calls @ ?cs'))),
             key_practices \<mapsto> PyInt (int (log_calls 1 (demo_calls @ ?cs') create_tables)),
             key_registered \<mapsto> PyStr (u_created_at r)],
        run (demo_calls @ ?cs') create_tables)"
    by blast
  from r fu have "r = \<lparr>u_id = 1, username = ''ahmad'', email = ''ahmed@firah.demo'',
        fitra_type = ''mustakshif'', consciousness_level = 1.225, u_created_at = ''t4'',
        journey_data = [(journey_start_key, ''n4'')]\<rparr>"
    by simp
  with s show ?thesis
    unfolding ic lc by simp
qed

theorem journey_summary_counts_counterexample:
  "user_id (FirahUser create_tables (Some 1)) = Some 1
   \<and> user_data (FirahUser create_tables (Some 1)) = Map.empty
   \<and> map username (filter (\<lambda>r. u_id r = 1) (users (run demo_calls create_tables))) = [''ahmad'']
   \<and> get_journey_summary (FirahUser create_tables (Some 1)) (run demo_calls create_tables) =
       (Inr [key_user \<mapsto> PyStr unknown_text,
             key_fitra \<mapsto> PyStr unspecified_text,
             key_level \<mapsto> PyFloat 1,
             key_insights \<mapsto> PyInt 0,
             key_practices \<mapsto> PyInt 0,
             key_registered \<mapsto> PyStr unknown_text],
        run demo_calls create_tables)
   \<and> unknown_text \<noteq> ''ahmad''
   \<and> \<not> loaded (FirahUser create_tables (Some 1)) (run demo_calls create_tables)"
proof -
  have o: "FirahUser create_tables (Some 1) = \<lparr>user_id = Some 1, user_data = Map.empty\<rparr>"
    by (simp add: FirahUser_def load_user_data_def find_user_def create_tables_def)
  have i: "insights demo_db = []"
    by (simp add: demo_db_eq)
  have 1: "map username (filter (\<lambda>r. u_id r = 1) (users demo_db)) = [''ahmad'']"
    by (simp add: users_demo_db)
  have 2: "get_journey_summary \<lparr>user_id = Some 1, user_data = Map.empty\<rparr> demo_db =
       (Inr [key_user \<mapsto> PyStr unknown_text,
             key_fitra \<mapsto> PyStr unspecified_text,
             key_level \<mapsto> PyFloat 1,
             key_insights \<mapsto> PyInt 0,
             key_practices \<mapsto> PyInt 0,
             key_registered \<mapsto> PyStr unknown_text],
        demo_db)"
    by (simp add: get_journey_summary_def count_insights_def count_practice_logs_def
        find_user_def users_demo_db practice_logs_demo_db i dict_get_def Let_def)
  have 3: "unknown_text \<noteq> ''ahmad''"
    by (simp add: unknown_text_def)
  have 4: "\<not> loaded \<lparr>user_id = Some 1, user_data = Map.empty\<rparr> demo_db"
    by (simp add: loaded_def find_user_def users_demo_db)
  show ?thesis
    unfolding o run_demo_calls using 1 2 3 4 by simp
qed

subsection \<open>The creator stays a member\<close>

lemma circle_members_apply_op:
  "circle_members (apply_op c d) = circle_members d
   \<or> (\<exists>cid uid rl ts.
         circle_members (apply_op c d) =
           filter (\<lambda>m. \<not> (m_circle_id m = cid \<and> m_user_id m = uid)) (circle_members d) @
           [\<lparr>m_circle_id = cid, m_user_id = uid, joined_at = ts, role = rl\<rparr>])"
proof (cases c)
  case (Register u a b f n t)
  then show ?thesis by (simp add: register_def Let_def)
next
  case (UpdateConsciousness u v)
  then show ?thesis by (simp add: update_consciousness_def split: option.split)
next
  case (AddInsight u ttl body itype ts)
  then show ?thesis by (simp add: add_insight_def)
next
  case (GetJourneySummary u)
  then show ?thesis by (simp add: get_journey_summary_def Let_def split: option.split)
next
  case (CreateCircle name descr admin ctype ts ts2)
  then show ?thesis by (auto simp: create_circle_def add_member_def insert_or_replace_member_def Let_def)
next
  case (AddMember cid uid rl ts)
  then show ?thesis by (auto simp: add_member_def insert_or_replace_member_def)
next
  case (SetCollectiveIntention cid body)
  then show ?thesis by (simp add: set_collective_intention_def)
next
  case (GetCircleInfo cid)
  then show ?thesis by (simp add: get_circle_info_def Let_def split: option.split)
next
  case (AddPractice ttl ptype body minutes level ts)
  then show ?thesis by (simp add: add_practice_def)
next
  case (LogPractice uid pid actual nts level_before ts)
  then show ?thesis by (simp add: log_practice_def Let_def split: option.split)
qed simp

lemma member_replace:
  assumes "\<exists>m \<in> set ms. m_circle_id m = cid \<and> m_user_id m = uid"
  shows "\<exists>m \<in> set (filter (\<lambda>m. \<not> (m_circle_id m = cid' \<and> m_user_id m = uid')) ms @
                    [\<lparr>m_circle_id = cid', m_user_id = uid', joined_at = ts, role = rl\<rparr>]).
           m_circle_id m = cid \<and> m_user_id m = uid"
proof (cases "cid = cid' \<and> uid = uid'")
  case True
  then show ?thesis by simp
next
  case False
  from assms obtain m where "m \<in> set ms" "m_circle_id m = cid" "m_user_id m = uid"
    by blast
  with False have
    "m \<in> set (filter (\<lambda>m. \<not> (m_circle_id m = cid' \<and> m_user_id m = uid')) ms)"
    by auto
  with \<open>m_circle_id m = cid\<close> \<open>m_user_id m = uid\<close> show ?thesis
    by (metis Un_iff set_append)
qed

lemma member_apply_op:
  assumes "\<exists>m \<in> set (circle_members d). m_circle_id m = cid \<and> m_user_id m = uid"
  shows "\<exists>m \<in> set (circle_members (apply_op c d)). m_circle_id m = cid \<and> m_user_id m = uid"
proof -
  from circle_members_apply_op[of c d] consider
      (same) "circle_members (apply_op c d) = circle_members d"
    | (repl) cid' uid' rl ts where
        "circle_members (apply_op c d) =
           filter (\<lambda>m. \<not> (m_circle_id m = cid' \<and> m_user_id m = uid')) (circle_members d) @
           [\<lparr>m_circle_id = cid', m_user_id = uid', joined_at = ts, role = rl\<rparr>]"
    by blast
  then show ?thesis
  proof cases
    case same
    with assms show ?thesis by simp
  next
    case repl
    show ?thesis
      unfolding repl using assms by (rule member_replace)
  qed
qed

lemma member_run:
  "\<exists>m \<in> set (circle_members d). m_circle_id m = cid \<and> m_user_id m = uid \<Longrightarrow>
   \<exists>m \<in> set (circle_members (run cs d)). m_circle_id m = cid \<and> m_user_id m = uid"
proof (induction cs arbitrary: d)
  case Nil
  then show ?case by (simp add: run_Nil)
next
  case (Cons c cs)
  from Cons.prems
  have "\<exists>m \<in> set (circle_members (apply_op c d)). m_circle_id m = cid \<and> m_user_id m = uid"
    by (rule member_apply_op)
  then show ?case unfolding run_Cons by (rule Cons.IH)
qed

lemma member_counts:
  assumes "\<exists>m \<in> set (circle_members d). m_circle_id m = cid \<and> m_user_id m = uid"
  shows "1 \<le> count_members cid d"
proof -
  from assms obtain m where "m \<in> set (circle_members d)" "m_circle_id m = cid"
    by blast
  then have "m \<in> set (filter (\<lambda>m. m_circle_id m = cid) (circle_members d))"
    by simp
  then have "0 < length (filter (\<lambda>m. m_circle_id m = cid) (circle_members d))"
    by (rule length_pos_if_in_set)
  then show ?thesis unfolding count_members_def by linarith
qed

lemma create_circle_eq:
  "create_circle name descr admin ctype ts ts2 d =
     (next_id (map c_id (circles d)),
      d\<lparr>circles := circles d @
           [\<lparr>c_id = next_id (map c_id (circles d)), c_name = name, c_description = descr,
             circle_type = ctype, collective_intention = None, admin_user_id = admin,
             c_created_at = ts\<rparr>],
        circle_members :=
          filter (\<lambda>m. \<not> (m_circle_id m = next_id (map c_id (circles d)) \<and> m_user_id m = admin))
            (circle_members d) @
          [\<lparr>m_circle_id = next_id (map c_id (circles d)), m_user_id = admin,
            joined_at = ts2, role = role_creator\<rparr>]\<rparr>)"
  by (simp add: create_circle_def add_member_def insert_or_replace_member_def Let_def)

lemma creators_apply_op:
  assumes inv: "\<forall>x \<in> set (circles d). \<exists>m \<in> set (circle_members d).
                  m_circle_id m = c_id x \<and> m_user_id m = admin_user_id x"
  shows "\<forall>x \<in> set (circles (apply_op c d)). \<exists>m \<in> set (circle_members (apply_op c d)).
           m_circle_id m = c_id x \<and> m_user_id m = admin_user_id x"
proof
  fix x assume x: "x \<in> set (circles (apply_op c d))"
  have old: "\<exists>m \<in> set (circle_members (apply_op c d)).
               m_circle_id m = c_id y \<and> m_user_id m = admin_user_id y"
    if "y \<in> set (circles d)" for y
    using inv that by (intro member_apply_op) blast
  show "\<exists>m \<in> set (circle_members (apply_op c d)).
          m_circle_id m = c_id x \<and> m_user_id m = admin_user_id x"
  proof (cases c)
    case (Register u a b f n t)
    with x have "x \<in> set (circles d)" by (simp add: register_def Let_def split: if_splits)
    then show ?thesis by (rule old)
  next
    case (Authenticate u a)
    with x have "x \<in> set (circles d)" by simp
    then show ?thesis by (rule old)
  next
    case (UpdateConsciousness u v)
    with x have "x \<in> set (circles d)"
      by (simp add: update_consciousness_def split: option.splits if_splits)
    then show ?thesis by (rule old)
  next
    case (AddInsight u ttl body itype ts)
    with x have "x \<in> set (circles d)" by (simp add: add_insight_def)
    then show ?thesis by (rule old)
  next
    case (GetJourneySummary u)
    with x have "x \<in> set (circles d)"
      by (simp add: get_journey_summary_def Let_def split: option.splits if_splits)
    then show ?thesis by (rule old)
  next
    case (CreateCircle name descr admin ctype ts ts2)
    from x consider (o) "x \<in> set (circles d)"
      | (n) "c_id x = next_id (map c_id (circles d))" "admin_user_id x = admin"
      unfolding CreateCircle by (auto simp: create_circle_eq)
    then show ?thesis
    proof cases
      case o
      then show ?thesis by (rule old)
    next
      case n
      then show ?thesis
        unfolding CreateCircle by (simp add: create_circle_eq)
    qed
  next
    case (AddMember cid uid rl ts)
    with x have "x \<in> set (circles d)"
      by (simp add: add_member_def insert_or_replace_member_def split: if_splits)
    then show ?thesis by (rule old)
  next
    case (SetCollectiveIntention cid body)
    with x obtain y where y: "y \<in> set (circles d)"
      and "x = (if c_id y = cid then y\<lparr>collective_intention := Some body\<rparr> else y)"
      by (auto simp: set_collective_intention_def)
    then have "c_id x = c_id y" "admin_user_id x = admin_user_id y"
      by (simp_all split: if_splits)
    with old[OF y] show ?thesis by simp
  next
    case (GetCircleInfo cid)
    with x have "x \<in> set (circles d)"
      by (simp add: get_circle_info_def Let_def split: option.splits if_splits)
    then show ?thesis by (rule old)
  next
    case (AddPractice ttl ptype body minutes level ts)
    with x have "x \<in> set (circles d)" by (simp add: add_practice_def)
    then show ?thesis by (rule old)
  next
    case (LogPractice uid pid actual nts level_before ts)
    with x have "x \<in> set (circles d)"
      by (simp add: log_practice_def Let_def split: option.splits if_splits)
    then show ?thesis by (rule old)
  qed
qed

lemma creators_run:
  "\<forall>x \<in> set (circles d). \<exists>m \<in> set (circle_members d).
      m_circle_id m = c_id x \<and> m_user_id m = admin_user_id x \<Longrightarrow>
   \<forall>x \<in> set (circles (run cs d)). \<exists>m \<in> set (circle_members (run cs d)).
      m_circle_id m = c_id x \<and> m_user_id m = admin_user_id x"
proof (induction cs arbitrary: d)
  case Nil
  then show ?case by (simp add: run_Nil)
next
  case (Cons c cs)
  from Cons.prems
  have "\<forall>x \<in> set (circles (apply_op c d)). \<exists>m \<in> set (circle_members (apply_op c d)).
          m_circle_id m = c_id x \<and> m_user_id m = admin_user_id x"
    by (rule creators_apply_op)
  then show ?case unfolding run_Cons by (rule Cons.IH)
qed

text \<open>
  C6. A call of \<^verbatim>\<open>create_circle\<close> that returns gives the circle a fresh id and leaves
  exactly one membership row for the pair (new circle, admin), with the creator role.
  After any further calls the circle still has at least one member. And in every
  database that a sequence of calls builds from the empty tables, every circle has its
  admin user among its members, so it has at least one member.
\<close>

theorem create_circle_creator_member:
  "fst (create_circle name descr admin ctype ts ts2 d) = next_id (map c_id (circles d))
   \<and> fst (create_circle name descr admin ctype ts ts2 d) \<notin> c_id ` set (circles d)
   \<and> filter (\<lambda>m. m_circle_id m = fst (create_circle name descr admin ctype ts ts2 d)
                  \<and> m_user_id m = admin)
        (circle_members (snd (create_circle name descr admin ctype ts ts2 d))) =
       [\<lparr>m_circle_id = fst (create_circle name descr admin ctype ts ts2 d), m_user_id = admin,
         joined_at = ts2, role = role_creator\<rparr>]
   \<and> 1 \<le> count_members (fst (create_circle name descr admin ctype ts ts2 d))
            (run cs (snd (create_circle name descr admin ctype ts ts2 d)))
   \<and> (\<forall>x \<in> set (circles (run cs' create_tables)).
         (\<exists>m \<in> set (circle_members (run cs' create_tables)).
            m_circle_id m = c_id x \<and> m_user_id m = admin_user_id x)
         \<and> 1 \<le> count_members (c_id x) (run cs' create_tables))"
proof -
  let ?cid = "next_id (map c_id (circles d))"
  let ?d' = "snd (create_circle name descr admin ctype ts ts2 d)"
  have c1: "fst (create_circle name descr admin ctype ts ts2 d) = ?cid"
    by (simp add: create_circle_eq)
  have c2: "?cid \<notin> c_id ` set (circles d)"
    using next_id_not_mem[of "map c_id (circles d)"] by simp
  have "filter (\<lambda>m. m_circle_id m = ?cid \<and> m_user_id m = admin)
          (filter (\<lambda>m. \<not> (m_circle_id m = ?cid \<and> m_user_id m = admin)) (circle_members d)) = []"
    by (simp add: filter_empty_conv)
  then have c3: "filter (\<lambda>m. m_circle_id m = ?cid \<and> m_user_id m = admin) (circle_members ?d') =
       [\<lparr>m_circle_id = ?cid, m_user_id = admin, joined_at = ts2, role = role_creator\<rparr>]"
    by (simp add: create_circle_eq)
  have "\<lparr>m_circle_id = ?cid, m_user_id = admin, joined_at = ts2, role = role_creator\<rparr>
          \<in> set (circle_members ?d')"
    by (simp add: create_circle_eq)
  then have "\<exists>m \<in> set (circle_members ?d'). m_circle_id m = ?cid \<and> m_user_id m = admin"
    by (rule bexI[rotated]) simp
  then have "\<exists>m \<in> set (circle_members (run cs ?d')). m_circle_id m = ?cid \<and> m_user_id m = admin"
    by (rule member_run)
  then have c4: "1 \<le> count_members ?cid (run cs ?d')"
    by (rule member_counts)
  have "\<forall>x \<in> set (circles create_tables). \<exists>m \<in> set (circle_members create_tables).
          m_circle_id m = c_id x \<and> m_user_id m = admin_user_id x"
    by (simp add: create_tables_def)
  then have inv: "\<forall>x \<in> set (circles (run cs' create_tables)).
      \<exists>m \<in> set (circle_members (run cs' create_tables)).
        m_circle_id m = c_id x \<and> m_user_id m = admin_user_id x"
    by (rule creators_run)
  have c5: "\<forall>x \<in> set (circles (run cs' create_tables)).
         (\<exists>m \<in> set (circle_members (run cs' create_tables)).
            m_circle_id m = c_id x \<and> m_user_id m = admin_user_id x)
         \<and> 1 \<le> count_members (c_id x) (run cs' create_tables)"
  proof
    fix x assume "x \<in> set (circles (run cs' create_tables))"
    with inv have m: "\<exists>m \<in> set (circle_members (run cs' create_tables)).
        m_circle_id m = c_id x \<and> m_user_id m = admin_user_id x"
      by blast
    from m member_counts[OF m]
    show "(\<exists>m \<in> set (circle_members (run cs' create_tables)).
            m_circle_id m = c_id x \<and> m_user_id m = admin_user_id x)
         \<and> 1 \<le> count_members (c_id x) (run cs' create_tables)"
      by (rule conjI)
  qed
  show ?thesis
    unfolding c1 by (intro conjI refl c2 c3[unfolded c1] c4[unfolded c1] c5)
qed

theorem create_circle_creator_member_witness:
  "fst (create_circle ''nur'' ''second'' 1 ''eamm'' ''t8'' ''t9'' demo_db) = 2
   \<and> 1 \<le> count_members 2
            (run demo_session (snd (create_circle ''nur'' ''second'' 1 ''eamm'' ''t8'' ''t9'' demo_db)))
   \<and> map c_id (circles (run (demo_calls @ demo_session) create_tables)) = [1]
   \<and> list_all (\<lambda>x. 1 \<le> count_members (c_id x) (run (demo_calls @ demo_session) create_tables))
       (circles (run (demo_calls @ demo_session) create_tables))"
proof -
  note a = create_circle_creator_member[of "''nur''" "''second''" 1 "''eamm''" "''t8''" "''t9''"
      demo_db demo_session "demo_calls @ demo_session"]
  have n: "next_id (map c_id (circles demo_db)) = 2"
    by (simp add: demo_db_eq next_id_def)
  have 1: "fst (create_circle ''nur'' ''second'' 1 ''eamm'' ''t8'' ''t9'' demo_db) = 2"
    using a n by simp
  have 2: "1 \<le> count_members 2
            (run demo_session (snd (create_circle ''nur'' ''second'' 1 ''eamm'' ''t8'' ''t9'' demo_db)))"
    using a unfolding 1 by blast
  have "circles (run (demo_calls @ demo_session) create_tables) = circles demo_db"
    by (simp add: run_append run_demo_calls run_demo_session)
  then have 3: "map c_id (circles (run (demo_calls @ demo_session) create_tables)) = [1]"
    by (simp add: demo_db_eq)
  have 4: "list_all (\<lambda>x. 1 \<le> count_members (c_id x) (run (demo_calls @ demo_session) create_tables))
       (circles (run (demo_calls @ demo_session) create_tables))"
    unfolding list_all_iff using a by blast
  show ?thesis by (intro conjI 1 2 3 4)
qed

subsection \<open>The report on a circle\<close>

















end
